theory Spec2Isabelle
  imports Complex_Main
begin

section \<open>Python values, errors and series helpers\<close>

text \<open>
  Python floats are idealised as real numbers in the sections on win probability,
  replacement level, WAR and auction values; the section on kicking points, whose claim
  is about the exact doubles returned, uses the double-precision model below. Where
  floats are real numbers, a value that the code obtains with a rounding error can
  differ from the model's in the last place (a product that is an exact tie for \<open>round\<close>
  over the reals need not be one in doubles). Python
  integers are \<open>int\<close>, and \<open>nat\<close> where a pydantic constraint (\<open>ge=0\<close>) makes the field
  non-negative. A raised exception is the left injection of a sum.
\<close>

datatype py_error =
    ValueError string
  | TypeError
  | NameError string
  | ZeroDivisionError
  | ValidationError
  | ColumnNotFoundError string

text \<open>Stable sort, descending by a key (\<open>sort(..., descending=True)\<close>, \<open>reverse=True\<close>).\<close>

definition sort_desc :: "('a \<Rightarrow> real) \<Rightarrow> 'a list \<Rightarrow> 'a list" where
  "sort_desc key xs = sort_key (\<lambda>x. - key x) xs"

text \<open>\<open>Series.mean()\<close>: null on an empty series.\<close>

definition series_mean :: "real list \<Rightarrow> real option" where
  "series_mean xs = (if xs = [] then None else Some (sum_list xs / real (length xs)))"

text \<open>
  \<open>Series.std()\<close> of Polars is the sample standard deviation (\<open>ddof = 1\<close>); it is null
  when the series has fewer than two values.
\<close>

definition series_std :: "real list \<Rightarrow> real option" where
  "series_std xs =
     (if length xs < 2 then None
      else let m = sum_list xs / real (length xs)
           in Some (sqrt (sum_list (map (\<lambda>x. (x - m)\<^sup>2) xs) / real (length xs - 1))))"

text \<open>\<open>numpy.std\<close>: the population standard deviation.\<close>

definition np_std :: "real list \<Rightarrow> real" where
  "np_std xs =
     (let m = sum_list xs / real (length xs)
      in sqrt (sum_list (map (\<lambda>x. (x - m)\<^sup>2) xs) / real (length xs)))"

text \<open>\<open>DataFrame.head(n)\<close>: a negative \<open>n\<close> keeps all rows but the last \<open>|n|\<close>.\<close>

definition df_head :: "int \<Rightarrow> 'a list \<Rightarrow> 'a list" where
  "df_head n xs = (if n < 0 then take (nat (int (length xs) + n)) xs else take (nat n) xs)"

text \<open>\<open>DataFrame.tail(n)\<close> for a non-negative \<open>n\<close>.\<close>

definition df_tail :: "nat \<Rightarrow> 'a list \<Rightarrow> 'a list" where
  "df_tail n xs = drop (length xs - n) xs"

text \<open>Built-in \<open>round(x, 0)\<close>: to the nearest whole number, ties to the even one.\<close>

definition py_round :: "real \<Rightarrow> real" where
  "py_round x =
     (let f = \<lfloor>x\<rfloor>; d = x - of_int f
      in of_int (if d < 1 / 2 then f else if 1 / 2 < d then f + 1
                 else if even f then f else f + 1))"

text \<open>Looking a name up in a scope; an unbound name raises \<open>NameError\<close>.\<close>

definition lookup_name :: "(string \<rightharpoonup> 'a) \<Rightarrow> string \<Rightarrow> py_error + 'a" where
  "lookup_name scope n = (case scope n of None \<Rightarrow> Inl (NameError n) | Some v \<Rightarrow> Inr v)"


section \<open>Double-precision floats\<close>

text \<open>
  A Python \<open>float\<close> and a Polars \<open>Float64\<close> are IEEE 754 binary64 numbers. A finite double
  is modelled by the real number it denotes (the two signed zeros are one value:
  they compare equal in Python). \<open>pow2 k\<close> is \<open>2\<close> to the power \<open>k\<close>.
\<close>

datatype double = Finite real | PosInf | NegInf | NaN

definition pow2 :: "int \<Rightarrow> real" where
  "pow2 k = (if 0 \<le> k then 2 ^ nat k else 1 / 2 ^ nat (- k))"

text \<open>The nearest integer, a tie going to the even one.\<close>

definition round_half_even :: "real \<Rightarrow> int" where
  "round_half_even y =
     (let f = \<lfloor>y\<rfloor>; d = y - of_int f
      in if d < 1 / 2 then f else if 1 / 2 < d then f + 1
         else if even f then f else f + 1)"

text \<open>
  The binary exponent of a non-zero real, not below that of the smallest normal number
  (below it the spacing of the doubles stays \<open>2\<close> to the power \<open>- 1074\<close>).
\<close>

definition double_exponent :: "real \<Rightarrow> int" where
  "double_exponent x = max \<lfloor>log 2 \<bar>x\<bar>\<rfloor> (- 1022)"

text \<open>
  Rounding a real result to the nearest double, ties to even: the significand has 53
  bits, and a result that rounds to \<open>2\<close> to the power 1024 or beyond overflows to an
  infinity.
\<close>

definition round_double :: "real \<Rightarrow> double" where
  "round_double x =
     (if x = 0 then Finite 0
      else
        let q = pow2 (double_exponent x - 52);
            r = of_int (round_half_even (x / q)) * q
        in if pow2 1024 \<le> \<bar>r\<bar> then (if 0 < x then PosInf else NegInf) else Finite r)"

text \<open>Addition and multiplication of doubles: the exact result, rounded.\<close>

fun dadd :: "double \<Rightarrow> double \<Rightarrow> double" where
  "dadd (Finite x) (Finite y) = round_double (x + y)"
| "dadd NaN b = NaN"
| "dadd a NaN = NaN"
| "dadd PosInf NegInf = NaN"
| "dadd NegInf PosInf = NaN"
| "dadd PosInf b = PosInf"
| "dadd a PosInf = PosInf"
| "dadd NegInf b = NegInf"
| "dadd a NegInf = NegInf"

fun dmul :: "double \<Rightarrow> double \<Rightarrow> double" where
  "dmul (Finite x) (Finite y) = round_double (x * y)"
| "dmul NaN b = NaN"
| "dmul a NaN = NaN"
| "dmul (Finite x) PosInf = (if x = 0 then NaN else if 0 < x then PosInf else NegInf)"
| "dmul (Finite x) NegInf = (if x = 0 then NaN else if 0 < x then NegInf else PosInf)"
| "dmul PosInf (Finite y) = (if y = 0 then NaN else if 0 < y then PosInf else NegInf)"
| "dmul NegInf (Finite y) = (if y = 0 then NaN else if 0 < y then NegInf else PosInf)"
| "dmul PosInf PosInf = PosInf"
| "dmul NegInf NegInf = PosInf"
| "dmul PosInf NegInf = NegInf"
| "dmul NegInf PosInf = NegInf"

text \<open>The value of a finite double, and two predicates on doubles.\<close>

definition dval :: "double \<Rightarrow> real" where
  "dval d = (case d of Finite x \<Rightarrow> x | _ \<Rightarrow> 0)"

definition finite_within :: "double \<Rightarrow> real \<Rightarrow> bool" where
  "finite_within d b = (case d of Finite x \<Rightarrow> \<bar>x\<bar> \<le> b | _ \<Rightarrow> False)"

definition is_finite :: "double \<Rightarrow> bool" where
  "is_finite d = (case d of Finite x \<Rightarrow> True | _ \<Rightarrow> False)"


section \<open>config/scoring.py and config/leagues.py\<close>

record KickingScoring =
  fg_0_29_base :: double
  fg_0_29_per_yard :: double
  fg_30_39_base :: double
  fg_30_39_per_yard :: double
  fg_40_plus_base :: double
  fg_40_plus_per_yard :: double
  fg_missed :: double
  extra_points :: double
  extra_points_missed :: double
  fumbles_special_teams :: double

text \<open>The default table: each decimal literal is the double nearest to it.\<close>

definition mppr_kicking :: KickingScoring where
  "mppr_kicking = \<lparr> fg_0_29_base = round_double (- 1 / 2),
     fg_0_29_per_yard = round_double (5 / 100),
     fg_30_39_base = round_double 1, fg_30_39_per_yard = round_double (2 / 10),
     fg_40_plus_base = round_double 3, fg_40_plus_per_yard = round_double (4 / 10),
     fg_missed = round_double (- 6), extra_points = round_double (3 / 10),
     extra_points_missed = round_double (- 2),
     fumbles_special_teams = round_double (- 6) \<rparr>"

text \<open>Every minimum and maximum is declared \<open>Field(..., ge=0)\<close>.\<close>

record RosterRequirements =
  qb_min :: nat
  qb_max :: nat
  rb_min :: nat
  rb_max :: nat
  wr_min :: nat
  wr_max :: nat
  te_min :: nat
  te_max :: nat
  pk_min :: nat
  pk_max :: nat
  pn_min :: nat
  pn_max :: nat
  dt_min :: nat
  dt_max :: nat
  de_min :: nat
  de_max :: nat
  lb_min :: nat
  lb_max :: nat
  cb_min :: nat
  cb_max :: nat
  s_min :: nat
  s_max :: nat
  offensive_flex_max :: int
  total_idp :: int
  total_starters :: int

definition default_roster :: RosterRequirements where
  "default_roster = \<lparr> qb_min = 1, qb_max = 1, rb_min = 1, rb_max = 2, wr_min = 2, wr_max = 4,
     te_min = 1, te_max = 2, pk_min = 1, pk_max = 1, pn_min = 1, pn_max = 1,
     dt_min = 2, dt_max = 3, de_min = 2, de_max = 3, lb_min = 1, lb_max = 3,
     cb_min = 2, cb_max = 4, s_min = 2, s_max = 3,
     offensive_flex_max = 7, total_idp = 12, total_starters = 21 \<rparr>"

definition get_position_requirements :: "RosterRequirements \<Rightarrow> string \<Rightarrow> nat \<times> nat" where
  "get_position_requirements r position =
     (if position = ''QB'' then (qb_min r, qb_max r)
      else if position = ''RB'' then (rb_min r, rb_max r)
      else if position = ''WR'' then (wr_min r, wr_max r)
      else if position = ''TE'' then (te_min r, te_max r)
      else if position = ''PK'' then (pk_min r, pk_max r)
      else if position = ''PN'' then (pn_min r, pn_max r)
      else if position = ''DT'' then (dt_min r, dt_max r)
      else if position = ''DE'' then (de_min r, de_max r)
      else if position = ''LB'' then (lb_min r, lb_max r)
      else if position = ''CB'' then (cb_min r, cb_max r)
      else if position = ''S'' then (s_min r, s_max r)
      else (0, 0))"

text \<open>
  \<open>teams\<close> is \<open>Field(16, ge=4, le=32)\<close> and \<open>minimum_games_played\<close> is \<open>Field(1, ge=1)\<close>;
  \<open>LeagueConfig_valid\<close> states the two constraints that construction enforces.
\<close>

record LeagueConfig =
  name :: string
  teams :: nat
  roster :: RosterRequirements
  minimum_games_played :: nat

definition LeagueConfig_valid :: "LeagueConfig \<Rightarrow> bool" where
  "LeagueConfig_valid cfg = (4 \<le> teams cfg \<and> teams cfg \<le> 32 \<and> 1 \<le> minimum_games_played cfg)"

definition fal_league :: LeagueConfig where
  "fal_league = \<lparr> name = ''Fantasy Analytical League'', teams = 16,
     roster = default_roster, minimum_games_played = 1 \<rparr>"

definition all_position_codes :: "string list" where
  "all_position_codes =
     [''QB'', ''RB'', ''WR'', ''TE'', ''PK'', ''PN'', ''DT'', ''DE'', ''LB'', ''CB'', ''S'']"

definition get_all_positions :: "LeagueConfig \<Rightarrow> string list" where
  "get_all_positions cfg =
     filter (\<lambda>pos. 0 < snd (get_position_requirements (roster cfg) pos)) all_position_codes"

definition get_starter_pool_size :: "LeagueConfig \<Rightarrow> string \<Rightarrow> nat" where
  "get_starter_pool_size cfg position =
     (let max_req = snd (get_position_requirements (roster cfg) position)
      in if 0 < max_req then teams cfg * max_req else 0)"


section \<open>calculators/win\_probability.py\<close>

text \<open>
  The standard normal distribution function that \<open>scipy.stats.norm.cdf\<close> evaluates,
  \<open>1/2 + erf (z / sqrt 2) / 2\<close>, with \<open>erf y = 2 / sqrt pi * gauss_int y\<close> and
  \<open>gauss_int y\<close> the power series of the integral of \<open>exp (- t\<^sup>2)\<close> from \<open>0\<close> to \<open>y\<close>.
\<close>

definition gauss_coeff :: "nat \<Rightarrow> real" where
  "gauss_coeff n =
     (if even n then (- 1) ^ (n div 2) / (fact (n div 2) * real (Suc n)) else 0)"

definition gauss_int :: "real \<Rightarrow> real" where
  "gauss_int x = (\<Sum>n. gauss_coeff n * x ^ Suc n)"

definition std_normal_cdf :: "real \<Rightarrow> real" where
  "std_normal_cdf z = 1 / 2 + gauss_int (z / sqrt 2) / sqrt pi"

definition norm_cdf :: "real \<Rightarrow> real \<Rightarrow> real \<Rightarrow> real" where
  "norm_cdf x loc scale = std_normal_cdf ((x - loc) / scale)"

definition calculate_win_probability :: "real \<Rightarrow> real \<Rightarrow> real \<Rightarrow> real" where
  "calculate_win_probability player_score team_average_score team_score_std =
     (let std = (if team_score_std \<le> 0 then 1 else team_score_std);
          expected_team_score = player_score;
          win_prob = norm_cdf expected_team_score team_average_score std
      in max 0 (min 1 win_prob))"

record team_context =
  team_avg_score :: real
  team_score_std :: real

record curve_point =
  fantasy_points :: real
  win_probability :: real
  cp_expected_wins :: real
  war :: real
  marginal_war :: real

text \<open>\<open>numpy.linspace(start, stop, num)\<close> with the end point included.\<close>

definition np_linspace :: "real \<Rightarrow> real \<Rightarrow> int \<Rightarrow> py_error + real list" where
  "np_linspace start stop num =
     (if num < 0 then Inl (ValueError ''Number of samples must be non-negative'')
      else if num = 1 then Inr [start]
      else Inr (map (\<lambda>i. start + real i * ((stop - start) / real (nat num - 1))) [0..<nat num]))"

text \<open>The loop over the grid; \<open>curve_points\<close> is the list built so far.\<close>

fun curve_loop :: "real \<Rightarrow> team_context \<Rightarrow> curve_point list \<Rightarrow> real list \<Rightarrow> curve_point list" where
  "curve_loop replacement_win_prob tc curve_points [] = curve_points"
| "curve_loop replacement_win_prob tc curve_points (points # rest) =
     (let win_prob = calculate_win_probability points (team_avg_score tc) (team_score_std tc);
          games = 17;
          expected_wins = win_prob * games;
          replacement_wins = replacement_win_prob * games;
          w = expected_wins - replacement_wins
      in curve_loop replacement_win_prob tc
           (curve_points @
             [\<lparr> fantasy_points = points, win_probability = win_prob,
                cp_expected_wins = expected_wins, war = w,
                marginal_war = w - (if curve_points \<noteq> [] then war (last curve_points) else 0) \<rparr>])
           rest)"

definition calculate_value_over_replacement_curve ::
  "real \<times> real \<Rightarrow> real \<Rightarrow> team_context \<Rightarrow> int \<Rightarrow> py_error + curve_point list" where
  "calculate_value_over_replacement_curve fantasy_points_range replacement_level_points tc num_points =
     (let (min_points, max_points) = fantasy_points_range
      in if min_points \<ge> max_points then Inr []
         else case np_linspace min_points max_points num_points of
                Inl e \<Rightarrow> Inl e
              | Inr point_values \<Rightarrow>
                  Inr (curve_loop
                         (calculate_win_probability replacement_level_points
                            (team_avg_score tc) (team_score_std tc))
                         tc [] point_values))"


section \<open>calculators/replacement.py\<close>

text \<open>A row of the season-aggregated statistics table.\<close>

record season_row =
  player_id :: string
  season :: int
  position :: string
  games_played :: real
  total_fantasy_points_mppr :: real
  avg_fantasy_points_mppr :: real
  player_name :: "string option"
  team :: "string option"

record starter_info =
  si_avg_fantasy_points :: real
  si_total_fantasy_points :: real
  si_games_played :: real

text \<open>The dictionary \<open>replacement_info\<close>; its keys carry the prefix \<open>ri_\<close>.\<close>

record replacement_info =
  ri_player_id :: string
  ri_rank :: nat
  ri_total_starters :: nat
  ri_avg_fantasy_points :: real
  ri_total_fantasy_points :: real
  ri_games_played :: real
  ri_position_avg_fantasy_points :: real
  ri_avg_starter_info :: "starter_info option"
  ri_avg_starter_win_prob :: real

definition qualified_players_at :: "LeagueConfig \<Rightarrow> season_row list \<Rightarrow> string \<Rightarrow> season_row list" where
  "qualified_players_at cfg stats_df pos =
     filter (\<lambda>r. position r = pos \<and> games_played r \<ge> real (minimum_games_played cfg)) stats_df"

definition find_replacement_level ::
  "LeagueConfig \<Rightarrow> season_row list \<Rightarrow> string \<Rightarrow> py_error + replacement_info option" where
  "find_replacement_level cfg stats_df pos =
     (let (min_req, max_req) = get_position_requirements (roster cfg) pos
      in if max_req = 0 then Inr None
         else
           let starter_pool_size = teams cfg * max_req;
               position_players =
                 sort_desc total_fantasy_points_mppr (qualified_players_at cfg stats_df pos);
               replacement_rank =
                 (if length position_players < starter_pool_size then length position_players
                  else starter_pool_size);
               starter_pool = take starter_pool_size position_players;
               replacement_player = df_tail 1 starter_pool
           in if length replacement_player = 0 then Inr None
              else
                let replacement_data = hd replacement_player
                in case (series_mean (map avg_fantasy_points_mppr starter_pool),
                         series_mean (map total_fantasy_points_mppr starter_pool),
                         series_mean (map games_played starter_pool)) of
                     (Some position_avg_fp, Some avg_starter_points, Some avg_starter_games) \<Rightarrow>
                       if avg_starter_games = 0 then Inl ZeroDivisionError
                       else Inr (Some
                         \<lparr> ri_player_id = player_id replacement_data,
                           ri_rank = replacement_rank,
                           ri_total_starters = starter_pool_size,
                           ri_avg_fantasy_points = avg_fantasy_points_mppr replacement_data,
                           ri_total_fantasy_points = total_fantasy_points_mppr replacement_data,
                           ri_games_played = games_played replacement_data,
                           ri_position_avg_fantasy_points = position_avg_fp,
                           ri_avg_starter_info = Some
                             \<lparr> si_avg_fantasy_points = avg_starter_points / avg_starter_games,
                               si_total_fantasy_points = avg_starter_points,
                               si_games_played = avg_starter_games \<rparr>,
                           ri_avg_starter_win_prob = 1 / 2 \<rparr>)
                   | _ \<Rightarrow> Inl TypeError)"

text \<open>The dictionary \<open>flex_replacement_info\<close>; its keys carry the prefix \<open>fi_\<close>.\<close>

record flex_replacement_info =
  fi_player_id :: string
  fi_rank :: int
  fi_total_starters :: int
  fi_avg_fantasy_points :: real
  fi_total_fantasy_points :: real
  fi_games_played :: real
  fi_positions_eligible :: "string list"
  fi_avg_starter_info :: starter_info

text \<open>The players taken by the dedicated slots of the flex positions, position by position.\<close>

fun used_players_of :: "LeagueConfig \<Rightarrow> season_row list \<Rightarrow> string list \<Rightarrow> string list" where
  "used_players_of cfg stats_df [] = []"
| "used_players_of cfg stats_df (pos # rest) =
     (let (min_req, max_req) = get_position_requirements (roster cfg) pos
      in (if 0 < max_req
          then map player_id
                 (take (teams cfg * max_req)
                   (sort_desc total_fantasy_points_mppr (filter (\<lambda>r. position r = pos) stats_df)))
          else [])
         @ used_players_of cfg stats_df rest)"

definition flex_eligible_players ::
  "LeagueConfig \<Rightarrow> season_row list \<Rightarrow> string list \<Rightarrow> season_row list" where
  "flex_eligible_players cfg stats_df flex_positions =
     (let used_players = used_players_of cfg stats_df flex_positions
      in sort_desc total_fantasy_points_mppr
           (filter (\<lambda>r. position r \<in> set flex_positions
                        \<and> player_id r \<notin> set used_players
                        \<and> games_played r \<ge> real (minimum_games_played cfg)) stats_df))"

text \<open>
  The last statement before \<open>return\<close> formats a log message from \<open>replacement_info\<close>;
  the function binds \<open>flex_replacement_info\<close> and the module has no global of the
  other name, so the lookup goes through the local scope below.
\<close>

definition find_flex_replacement_level ::
  "LeagueConfig \<Rightarrow> season_row list \<Rightarrow> string list \<Rightarrow> int
     \<Rightarrow> py_error + flex_replacement_info option" where
  "find_flex_replacement_level cfg stats_df flex_positions flex_spots =
     (let flex_eligible = flex_eligible_players cfg stats_df flex_positions;
          flex_replacement_rank =
            (if int (length flex_eligible) < flex_spots then int (length flex_eligible)
             else flex_spots);
          flex_replacement =
            (if 1 \<le> flex_replacement_rank \<and> flex_replacement_rank \<le> int (length flex_eligible)
             then [flex_eligible ! (nat flex_replacement_rank - 1)] else [])
      in if length flex_replacement = 0 then Inr None
         else
           let replacement_data = hd flex_replacement;
               flex_starters = df_head flex_spots flex_eligible
           in case (series_mean (map total_fantasy_points_mppr flex_starters),
                    series_mean (map games_played flex_starters)) of
                (Some avg_flex_points, Some avg_flex_games) \<Rightarrow>
                  if avg_flex_games = 0 then Inl ZeroDivisionError
                  else
                    let flex_replacement_info =
                          \<lparr> fi_player_id = player_id replacement_data,
                            fi_rank = flex_replacement_rank,
                            fi_total_starters = flex_spots,
                            fi_avg_fantasy_points = avg_fantasy_points_mppr replacement_data,
                            fi_total_fantasy_points = total_fantasy_points_mppr replacement_data,
                            fi_games_played = games_played replacement_data,
                            fi_positions_eligible = flex_positions,
                            fi_avg_starter_info =
                              \<lparr> si_avg_fantasy_points = avg_flex_points / avg_flex_games,
                                si_total_fantasy_points = avg_flex_points,
                                si_games_played = avg_flex_games \<rparr> \<rparr>
                    in case lookup_name [''flex_replacement_info'' \<mapsto> flex_replacement_info]
                              ''replacement_info'' of
                         Inl e \<Rightarrow> Inl e
                       | Inr logged \<Rightarrow> Inr (Some flex_replacement_info)
              | _ \<Rightarrow> Inl TypeError)"

text \<open>The body of the loop of \<open>calculate_positional_scarcity\<close> for one position.\<close>

definition position_scarcity :: "LeagueConfig \<Rightarrow> season_row list \<Rightarrow> string \<Rightarrow> py_error + real" where
  "position_scarcity cfg stats_df pos =
     (let position_players = qualified_players_at cfg stats_df pos
      in if length position_players = 0 then Inr 1
         else
           let points_std = series_std (map total_fantasy_points_mppr position_players);
               max_req = snd (get_position_requirements (roster cfg) pos);
               starter_pool_size = teams cfg * max_req
           in case series_mean (map total_fantasy_points_mppr position_players) of
                None \<Rightarrow> Inl TypeError
              | Some points_mean \<Rightarrow>
                  if points_mean > 0 \<and> starter_pool_size > 0
                  then (case points_std of
                          None \<Rightarrow> Inl TypeError
                        | Some sd \<Rightarrow>
                            let coefficient_of_variation = sd / points_mean;
                                pool_factor = 100 / real starter_pool_size;
                                scarcity = 1 + coefficient_of_variation * pool_factor * (1 / 2)
                            in Inr (min scarcity 2))
                  else Inr 1)"

fun scarcity_loop ::
  "LeagueConfig \<Rightarrow> season_row list \<Rightarrow> string list \<Rightarrow> py_error + (string \<times> real) list" where
  "scarcity_loop cfg stats_df [] = Inr []"
| "scarcity_loop cfg stats_df (pos # rest) =
     (case position_scarcity cfg stats_df pos of
        Inl e \<Rightarrow> Inl e
      | Inr m \<Rightarrow> (case scarcity_loop cfg stats_df rest of
                   Inl e \<Rightarrow> Inl e
                 | Inr ms \<Rightarrow> Inr ((pos, m) # ms)))"

definition calculate_positional_scarcity ::
  "LeagueConfig \<Rightarrow> season_row list \<Rightarrow> py_error + (string \<times> real) list" where
  "calculate_positional_scarcity cfg stats_df = scarcity_loop cfg stats_df (get_all_positions cfg)"


section \<open>models/war\_results.py and calculators/war\_engine.py\<close>

text \<open>
  \<open>WARResult\<close>; fields whose names other records use as well carry the prefix \<open>wr_\<close>.
\<close>

record WARResult =
  wr_player_id :: string
  wr_season :: int
  wr_position :: string
  wr_player_name :: "string option"
  wr_team :: "string option"
  wr_games_played :: int
  weeks_analyzed :: "int list"
  total_fantasy_points :: real
  average_fantasy_points :: real
  win_percentage :: real
  expected_wins :: real
  replacement_win_percentage :: real
  replacement_expected_wins :: real
  wins_above_replacement :: real
  wins_above_average :: real
  team_average_score :: real
  wr_team_score_std :: real

text \<open>
  The field constraints that pydantic checks when a \<open>WARResult\<close> is built. \<open>games_played\<close>
  is an \<open>int\<close> field: a float is accepted only when it has no fractional part.
\<close>

definition WARResult_fields_ok ::
  "int \<Rightarrow> string \<Rightarrow> real \<Rightarrow> real \<Rightarrow> real \<Rightarrow> real \<Rightarrow> real \<Rightarrow> real \<Rightarrow> bool" where
  "WARResult_fields_ok seas pos games win_pct exp_wins rep_win_pct rep_wins std =
     (1920 \<le> seas \<and> seas \<le> 2030
      \<and> pos \<in> set all_position_codes
      \<and> games = of_int \<lfloor>games\<rfloor> \<and> 0 \<le> games \<and> games \<le> 17
      \<and> 0 \<le> win_pct \<and> win_pct \<le> 1
      \<and> 0 \<le> exp_wins
      \<and> 0 \<le> rep_win_pct \<and> rep_win_pct \<le> 1
      \<and> 0 \<le> rep_wins
      \<and> 0 \<le> std)"

text \<open>
  \<open>_calculate_player_war\<close>: every exception is caught and turned into \<open>None\<close>.
\<close>

definition calculate_player_war ::
  "season_row \<Rightarrow> replacement_info \<Rightarrow> team_context \<Rightarrow> int list \<Rightarrow> WARResult option" where
  "calculate_player_war player_data replacement_info tc weeks =
     (let player_fp = total_fantasy_points_mppr player_data;
          avg_fp = avg_fantasy_points_mppr player_data;
          games = games_played player_data;
          win_prob = calculate_win_probability player_fp (team_avg_score tc) (team_score_std tc);
          exp_wins = win_prob * games;
          replacement_fp = ri_avg_fantasy_points replacement_info;
          replacement_win_prob =
            calculate_win_probability replacement_fp (team_avg_score tc) (team_score_std tc);
          replacement_wins = replacement_win_prob * games;
          war_value = exp_wins - replacement_wins;
          waa_value =
            (case ri_avg_starter_info replacement_info of
               Some avg_starter_info \<Rightarrow>
                 exp_wins -
                   calculate_win_probability (si_avg_fantasy_points avg_starter_info)
                     (team_avg_score tc) (team_score_std tc) * games
             | None \<Rightarrow> 0)
      in if WARResult_fields_ok (season player_data) (position player_data) games
              win_prob exp_wins replacement_win_prob replacement_wins (team_score_std tc)
         then Some
           \<lparr> wr_player_id = player_id player_data,
             wr_season = season player_data,
             wr_position = position player_data,
             wr_player_name = player_name player_data,
             wr_team = team player_data,
             wr_games_played = \<lfloor>games\<rfloor>,
             weeks_analyzed = weeks,
             total_fantasy_points = player_fp,
             average_fantasy_points = avg_fp,
             win_percentage = win_prob,
             expected_wins = exp_wins,
             replacement_win_percentage = replacement_win_prob,
             replacement_expected_wins = replacement_wins,
             wins_above_replacement = war_value,
             wins_above_average = waa_value,
             team_average_score = team_avg_score tc,
             wr_team_score_std = team_score_std tc \<rparr>
         else None)"


section \<open>calculators/auction\_values.py\<close>

record PositionWAR =
  pw_position :: string
  pw_season :: int
  total_teams :: nat
  starters_per_team :: nat
  total_starter_spots :: nat
  replacement_level_rank :: nat
  replacement_player_id :: "string option"
  player_wars :: "WARResult list"

text \<open>\<open>AuctionValue\<close>; fields shared with other records carry the prefix \<open>av_\<close>.\<close>

record AuctionValue =
  av_player_id :: string
  av_season :: int
  av_position :: string
  av_player_name :: "string option"
  av_wins_above_replacement :: real
  war_rank_overall :: nat
  war_rank_position :: nat
  auction_value_dollars :: real
  value_per_war :: real
  value_over_replacement :: real
  positional_scarcity_multiplier :: real
  draft_tier :: nat
  is_sleeper :: bool
  is_bust_risk :: bool
  league_budget_total :: int

text \<open>
  \<open>LeagueWAR\<close>; the dictionary \<open>position_results\<close> is the list of its items in
  insertion order (its keys are distinct).
\<close>

record LeagueWAR =
  lw_season :: int
  league_name :: string
  position_results :: "(string \<times> PositionWAR) list"
  auction_values :: "AuctionValue list"
  total_auction_value :: real
  dollars_per_war_league_average :: real

definition qualified_players :: "PositionWAR \<Rightarrow> WARResult list" where
  "qualified_players p = filter (\<lambda>w. wr_games_played w \<ge> 1) (player_wars p)"

text \<open>Built-in \<open>max\<close> of a non-empty list.\<close>

definition list_max :: "real list \<Rightarrow> real" where
  "list_max xs = fold max (tl xs) (hd xs)"

definition calculate_base_value_per_war :: "LeagueConfig \<Rightarrow> int \<Rightarrow> WARResult list \<Rightarrow> real" where
  "calculate_base_value_per_war cfg total_budget war_results =
     (let positive_war_players = filter (\<lambda>w. wins_above_replacement w > 0) war_results
      in if positive_war_players = [] then 1
         else
           let total_war = sum_list (map wins_above_replacement positive_war_players);
               available_budget = of_int (total_budget * int (teams cfg)) * (65 / 100)
           in if total_war > 0 then available_budget / total_war else 1)"

text \<open>The body of the loop of \<open>_calculate_positional_scarcity\<close> for one position.\<close>

definition auction_position_scarcity :: "PositionWAR \<Rightarrow> real" where
  "auction_position_scarcity pos_result =
     (if player_wars pos_result = [] then 1
      else
        let war_values = map wins_above_replacement (qualified_players pos_result)
        in if length war_values < 2 then 1
           else
             let war_std = np_std war_values;
                 war_max = list_max war_values;
                 replacement_war = 0;
                 dropoff_factor = (if war_max > 0 then war_max - replacement_war else 1);
                 starter_spots = total_starter_spots pos_result;
                 n_qualified = length (qualified_players pos_result);
                 depth_factor =
                   (if n_qualified > 0
                    then real starter_spots / real (max n_qualified starter_spots) else 1);
                 scarcity = 1 + war_std * dropoff_factor * depth_factor * (1 / 10)
             in min scarcity (18 / 10))"

definition auction_calculate_positional_scarcity :: "LeagueWAR \<Rightarrow> (string \<times> real) list" where
  "auction_calculate_positional_scarcity league_war =
     map (\<lambda>(pos, pos_result). (pos, auction_position_scarcity pos_result))
       (position_results league_war)"

definition calculate_rank_multiplier :: "nat \<Rightarrow> real" where
  "calculate_rank_multiplier overall_rank =
     (if overall_rank \<le> 5 then 13 / 10
      else if overall_rank \<le> 12 then 12 / 10
      else if overall_rank \<le> 24 then 11 / 10
      else if overall_rank \<le> 50 then 1
      else if overall_rank \<le> 100 then 95 / 100
      else 9 / 10)"

fun rank_loop :: "string \<Rightarrow> nat \<Rightarrow> WARResult list \<Rightarrow> nat" where
  "rank_loop pid i [] = i + 1"
| "rank_loop pid i (player # rest) =
     (if wr_player_id player = pid then i + 1 else rank_loop pid (i + 1) rest)"

definition get_position_rank :: "WARResult \<Rightarrow> WARResult list \<Rightarrow> nat" where
  "get_position_rank war_result all_war_results =
     (let position_players =
            sort_desc wins_above_replacement
              (filter (\<lambda>w. wr_position w = wr_position war_result) all_war_results)
      in rank_loop (wr_player_id war_result) 0 position_players)"

definition calculate_draft_tier :: "int \<Rightarrow> nat \<Rightarrow> real \<Rightarrow> nat" where
  "calculate_draft_tier total_budget overall_rank auction_value =
     (if overall_rank \<le> 12 \<and> auction_value \<ge> of_int total_budget * (25 / 100) then 1
      else if overall_rank \<le> 24 \<and> auction_value \<ge> of_int total_budget * (15 / 100) then 2
      else if overall_rank \<le> 50 \<and> auction_value \<ge> of_int total_budget * (8 / 100) then 3
      else if overall_rank \<le> 100 \<and> auction_value \<ge> of_int total_budget * (4 / 100) then 4
      else 5)"

definition is_sleeper_candidate :: "int \<Rightarrow> WARResult \<Rightarrow> real \<Rightarrow> nat \<Rightarrow> py_error + bool" where
  "is_sleeper_candidate total_budget war_result auction_value position_rank =
     (if auction_value = 0 then Inl ZeroDivisionError
      else
        let value_efficiency = wins_above_replacement war_result / auction_value
        in Inr (wins_above_replacement war_result > 1 / 2
                \<and> auction_value < of_int total_budget * (1 / 10)
                \<and> position_rank > 10
                \<and> value_efficiency > 5 / 100))"

definition is_bust_risk_candidate :: "int \<Rightarrow> WARResult \<Rightarrow> real \<Rightarrow> nat \<Rightarrow> py_error + bool" where
  "is_bust_risk_candidate total_budget war_result auction_value overall_rank =
     (if auction_value = 0 then Inl ZeroDivisionError
      else
        let value_efficiency = wins_above_replacement war_result / auction_value
        in Inr (overall_rank \<le> 24
                \<and> auction_value \<ge> of_int total_budget * (15 / 100)
                \<and> value_efficiency < 3 / 100))"

text \<open>The field constraints that pydantic checks when an \<open>AuctionValue\<close> is built.\<close>

definition AuctionValue_fields_ok :: "AuctionValue \<Rightarrow> bool" where
  "AuctionValue_fields_ok a =
     (1920 \<le> av_season a \<and> av_season a \<le> 2030
      \<and> av_position a \<in> set all_position_codes
      \<and> 0 < war_rank_overall a \<and> 0 < war_rank_position a
      \<and> 0 \<le> auction_value_dollars a \<and> 0 \<le> value_per_war a
      \<and> 0 < positional_scarcity_multiplier a
      \<and> 1 \<le> draft_tier a \<and> draft_tier a \<le> 20
      \<and> 0 < league_budget_total a)"

definition calculate_individual_auction_value ::
  "int \<Rightarrow> WARResult \<Rightarrow> real \<Rightarrow> real \<Rightarrow> nat \<Rightarrow> WARResult list \<Rightarrow> py_error + AuctionValue option" where
  "calculate_individual_auction_value total_budget war_result base_value_per_war
       position_multiplier overall_rank all_war_results =
     (if wins_above_replacement war_result \<le> 0 then Inr None
      else
        let base_value = wins_above_replacement war_result * base_value_per_war;
            position_adjusted_value = base_value * position_multiplier;
            rank_multiplier = calculate_rank_multiplier overall_rank;
            final_value0 = position_adjusted_value * rank_multiplier;
            final_value1 = max final_value0 1;
            max_value = of_int total_budget * (6 / 10);
            final_value = min final_value1 max_value;
            position_rank = get_position_rank war_result all_war_results;
            tier = calculate_draft_tier total_budget overall_rank final_value
        in case is_sleeper_candidate total_budget war_result final_value position_rank of
             Inl e \<Rightarrow> Inl e
           | Inr sleeper \<Rightarrow>
               (case is_bust_risk_candidate total_budget war_result final_value overall_rank of
                  Inl e \<Rightarrow> Inl e
                | Inr bust \<Rightarrow>
                    let a = \<lparr> av_player_id = wr_player_id war_result,
                              av_season = wr_season war_result,
                              av_position = wr_position war_result,
                              av_player_name = wr_player_name war_result,
                              av_wins_above_replacement = wins_above_replacement war_result,
                              war_rank_overall = overall_rank,
                              war_rank_position = position_rank,
                              auction_value_dollars = py_round final_value,
                              value_per_war = base_value_per_war,
                              value_over_replacement = final_value - 1,
                              positional_scarcity_multiplier = position_multiplier,
                              draft_tier = tier,
                              is_sleeper = sleeper,
                              is_bust_risk = bust,
                              league_budget_total = total_budget \<rparr>
                    in if AuctionValue_fields_ok a then Inr (Some a) else Inl ValidationError))"

text \<open>The loop \<open>for i, war_result in enumerate(all_war_results)\<close>, from index \<open>i\<close> on.\<close>

fun auction_loop ::
  "int \<Rightarrow> real \<Rightarrow> (string \<times> real) list \<Rightarrow> WARResult list \<Rightarrow> nat \<Rightarrow> WARResult list
     \<Rightarrow> py_error + AuctionValue list" where
  "auction_loop total_budget base scarcity all_war_results i [] = Inr []"
| "auction_loop total_budget base scarcity all_war_results i (war_result # rest) =
     (if wins_above_replacement war_result \<le> 0
      then auction_loop total_budget base scarcity all_war_results (i + 1) rest
      else
        case calculate_individual_auction_value total_budget war_result base
               (case map_of scarcity (wr_position war_result) of None \<Rightarrow> 1 | Some m \<Rightarrow> m)
               (i + 1) all_war_results of
          Inl e \<Rightarrow> Inl e
        | Inr r \<Rightarrow>
            (case auction_loop total_budget base scarcity all_war_results (i + 1) rest of
               Inl e \<Rightarrow> Inl e
             | Inr vals \<Rightarrow> Inr ((case r of None \<Rightarrow> [] | Some a \<Rightarrow> [a]) @ vals)))"

definition calculate_league_auction_stats :: "LeagueWAR \<Rightarrow> LeagueWAR" where
  "calculate_league_auction_stats league_war =
     (if auction_values league_war = [] then league_war
      else
        let total_value = sum_list (map auction_value_dollars (auction_values league_war));
            total_war = sum_list (map av_wins_above_replacement (auction_values league_war))
        in league_war
             \<lparr> total_auction_value := total_value,
               dollars_per_war_league_average :=
                 (if total_war > 0 then total_value / total_war else 0) \<rparr>)"

text \<open>
  \<open>calculate_league_auction_values\<close> returns the list and stores it in \<open>league_war\<close>;
  the model returns the list together with the updated \<open>league_war\<close>.
\<close>

definition calculate_league_auction_values ::
  "LeagueConfig \<Rightarrow> int \<Rightarrow> LeagueWAR \<Rightarrow> py_error + (AuctionValue list \<times> LeagueWAR)" where
  "calculate_league_auction_values cfg total_budget league_war =
     (let all_war_results =
            sort_desc wins_above_replacement
              (concat (map (\<lambda>(pos, pos_result). player_wars pos_result)
                 (position_results league_war)));
          scarcity_multipliers = auction_calculate_positional_scarcity league_war;
          base_value_per_war = calculate_base_value_per_war cfg total_budget all_war_results
      in case auction_loop total_budget base_value_per_war scarcity_multipliers
                all_war_results 0 all_war_results of
           Inl e \<Rightarrow> Inl e
         | Inr vals \<Rightarrow>
             Inr (vals, calculate_league_auction_stats (league_war \<lparr> auction_values := vals \<rparr>)))"


section \<open>Kicking points: calculators/fantasy\_points.py and data/processors.py\<close>

text \<open>
  The two kicking paths are compared as the exact doubles they return, so this section
  works with the double-precision model above. A statistics mapping, or a row
  of the statistics table with its numeric columns, maps a name to a double (an integer
  count is the double it converts to).
\<close>

type_synonym stats = "string \<rightharpoonup> double"

definition stats_get :: "stats \<Rightarrow> string \<Rightarrow> double \<Rightarrow> double" where
  "stats_get st k d = (case st k of None \<Rightarrow> d | Some v \<Rightarrow> v)"

text \<open>The statements \<open>points += t\<close>, one after the other.\<close>

fun py_accumulate :: "double \<Rightarrow> double list \<Rightarrow> double" where
  "py_accumulate points [] = points"
| "py_accumulate points (t # ts) = py_accumulate (dadd points t) ts"

text \<open>\<open>FantasyPointsCalculator.calculate_kicking_points\<close>: \<open>points\<close> starts at \<open>0.0\<close>.\<close>

definition calculate_kicking_points :: "KickingScoring \<Rightarrow> stats \<Rightarrow> double" where
  "calculate_kicking_points scoring st =
     py_accumulate (Finite 0)
       [dmul (stats_get st ''fg_made_0_19'' (Finite 0)) (Finite 5),
        dmul (stats_get st ''fg_made_20_29'' (Finite 0)) (Finite 5),
        dmul (stats_get st ''fg_made_30_39'' (Finite 0)) (Finite 5),
        dmul (stats_get st ''fg_made_40_49'' (Finite 0)) (Finite 6),
        dmul (stats_get st ''fg_made_50_59'' (Finite 0)) (Finite 7),
        dmul (stats_get st ''fg_made_60_'' (Finite 0)) (Finite 7),
        dmul (stats_get st ''fg_missed_0_19'' (Finite 0)) (fg_missed scoring),
        dmul (stats_get st ''fg_missed_20_29'' (Finite 0)) (fg_missed scoring),
        dmul (stats_get st ''fg_missed_30_39'' (Finite 0)) (fg_missed scoring),
        dmul (stats_get st ''fg_missed_40_49'' (Finite 0)) (fg_missed scoring),
        dmul (stats_get st ''fg_missed_50_59'' (Finite 0)) (fg_missed scoring),
        dmul (stats_get st ''fg_missed_60_'' (Finite 0)) (fg_missed scoring),
        dmul (stats_get st ''pat_made'' (Finite 0)) (extra_points scoring),
        dmul (stats_get st ''pat_missed'' (Finite 0)) (extra_points_missed scoring),
        dmul (stats_get st ''pat_blocked'' (Finite 0)) (extra_points_missed scoring),
        dmul (stats_get st ''fumbles_special_teams'' (Finite 0)) (fumbles_special_teams scoring)]"

text \<open>The numeric columns that \<open>_ensure_columns\<close> adds when they are absent.\<close>

definition required_cols :: "(string \<times> double) list" where
  "required_cols =
     [(''passing_yards'', Finite 0), (''pass_attempts'', Finite 0),
      (''completions'', Finite 0), (''passing_tds'', Finite 0),
      (''interceptions'', Finite 0), (''passing_2pt_conversions'', Finite 0),
      (''sacks'', Finite 0), (''sack_yards'', Finite 0),
      (''passing_first_downs'', Finite 0), (''rushing_yards'', Finite 0),
      (''carries'', Finite 0), (''rushing_tds'', Finite 0),
      (''rushing_2pt_conversions'', Finite 0), (''rushing_first_downs'', Finite 0),
      (''receiving_yards'', Finite 0), (''targets'', Finite 0), (''receptions'', Finite 0),
      (''receiving_tds'', Finite 0), (''receiving_2pt_conversions'', Finite 0),
      (''receiving_first_downs'', Finite 0), (''sack_fumbles'', Finite 0),
      (''rushing_fumbles'', Finite 0), (''receiving_fumbles'', Finite 0),
      (''sack_fumbles_lost'', Finite 0), (''rushing_fumbles_lost'', Finite 0),
      (''receiving_fumbles_lost'', Finite 0), (''tackles'', Finite 0),
      (''assists'', Finite 0), (''tackles_for_loss'', Finite 0), (''sacks_def'', Finite 0),
      (''qb_hits'', Finite 0), (''passes_defended'', Finite 0),
      (''interceptions_def'', Finite 0), (''fumble_recoveries'', Finite 0),
      (''forced_fumbles'', Finite 0), (''safeties'', Finite 0),
      (''defensive_tds'', Finite 0), (''fg_made_0_19'', Finite 0),
      (''fg_made_20_29'', Finite 0), (''fg_made_30_39'', Finite 0),
      (''fg_made_40_49'', Finite 0), (''fg_made_50_59'', Finite 0),
      (''fg_made_60_'', Finite 0), (''fg_missed_0_19'', Finite 0),
      (''fg_missed_20_29'', Finite 0), (''fg_missed_30_39'', Finite 0),
      (''fg_missed_40_49'', Finite 0), (''fg_missed_50_59'', Finite 0),
      (''fg_missed_60_'', Finite 0), (''pat_made'', Finite 0), (''pat_missed'', Finite 0),
      (''pat_blocked'', Finite 0), (''punts'', Finite 0), (''punt_yards'', Finite 0),
      (''punts_inside_20'', Finite 0), (''punts_blocked'', Finite 0),
      (''games_played'', Finite 1), (''games_started'', Finite 0)]"

definition ensure_columns :: "stats \<Rightarrow> stats" where
  "ensure_columns df = map_of required_cols ++ df"

text \<open>A column expression on a row: \<open>pl.col\<close>, a product with a constant, a sum.\<close>

definition pl_col :: "stats \<Rightarrow> string \<Rightarrow> py_error + double" where
  "pl_col df c = (case df c of None \<Rightarrow> Inl (ColumnNotFoundError c) | Some v \<Rightarrow> Inr v)"

definition pl_times :: "py_error + double \<Rightarrow> double \<Rightarrow> py_error + double" where
  "pl_times e k = (case e of Inl err \<Rightarrow> Inl err | Inr v \<Rightarrow> Inr (dmul v k))"

definition pl_plus :: "py_error + double \<Rightarrow> py_error + double \<Rightarrow> py_error + double" where
  "pl_plus a b =
     (case a of Inl err \<Rightarrow> Inl err
      | Inr x \<Rightarrow> (case b of Inl err \<Rightarrow> Inl err | Inr y \<Rightarrow> Inr (dadd x y)))"

text \<open>The sum \<open>t1 + t2 + ... + tn\<close> of column expressions, associated to the left.\<close>

fun pl_sum :: "py_error + double \<Rightarrow> (py_error + double) list \<Rightarrow> py_error + double" where
  "pl_sum acc [] = acc"
| "pl_sum acc (t # ts) = pl_sum (pl_plus acc t) ts"

text \<open>\<open>StatsProcessor._calculate_kicking_points\<close>, evaluated on one row.\<close>

definition processor_kicking_points :: "KickingScoring \<Rightarrow> stats \<Rightarrow> py_error + double" where
  "processor_kicking_points scoring df =
     pl_sum (pl_times (pl_col df ''fg_made_0_19'') (Finite 3))
       [pl_times (pl_col df ''fg_made_20_29'') (Finite 5),
        pl_times (pl_col df ''fg_made_30_39'') (Finite 5),
        pl_times (pl_col df ''fg_made_40_49'') (Finite 6),
        pl_times (pl_col df ''fg_made_50_59'') (Finite 7),
        pl_times (pl_col df ''fg_made_60_'') (Finite 7),
        pl_times (pl_col df ''fg_missed_0_19'') (fg_missed scoring),
        pl_times (pl_col df ''fg_missed_20_29'') (fg_missed scoring),
        pl_times (pl_col df ''fg_missed_30_39'') (fg_missed scoring),
        pl_times (pl_col df ''fg_missed_40_49'') (fg_missed scoring),
        pl_times (pl_col df ''fg_missed_50_59'') (fg_missed scoring),
        pl_times (pl_col df ''fg_missed_60_'') (fg_missed scoring),
        pl_times (pl_col df ''pat_made'') (extra_points scoring),
        pl_times (pl_col df ''pat_missed'') (extra_points_missed scoring),
        pl_times (pl_col df ''pat_blocked'') (extra_points_missed scoring)]"

text \<open>
  \<open>StatsProcessor.calculate_fantasy_points\<close> on a kicker's row: the columns are
  ensured first, then the kicking expression is evaluated.
\<close>

definition vectorized_kicking_points :: "KickingScoring \<Rightarrow> stats \<Rightarrow> py_error + double" where
  "vectorized_kicking_points scoring row = processor_kicking_points scoring (ensure_columns row)"

text \<open>
  The value that the single-player path is compared with: the vectorized result plus
  \<open>2.0 * fg_made_0_19\<close>, computed in doubles.
\<close>

definition vectorized_plus_short_field_goals :: "KickingScoring \<Rightarrow> stats \<Rightarrow> py_error + double" where
  "vectorized_plus_short_field_goals scoring st =
     (case vectorized_kicking_points scoring st of
        Inl err \<Rightarrow> Inl err
      | Inr v \<Rightarrow> Inr (dadd v (dmul (Finite 2) (stats_get st ''fg_made_0_19'' (Finite 0)))))"

text \<open>The fifteen statistics that both kicking paths read.\<close>

definition kicking_columns :: "string list" where
  "kicking_columns =
     [''fg_made_0_19'', ''fg_made_20_29'', ''fg_made_30_39'', ''fg_made_40_49'',
      ''fg_made_50_59'', ''fg_made_60_'', ''fg_missed_0_19'', ''fg_missed_20_29'',
      ''fg_missed_30_39'', ''fg_missed_40_49'', ''fg_missed_50_59'', ''fg_missed_60_'',
      ''pat_made'', ''pat_missed'', ''pat_blocked'']"

text \<open>
  The fourteen terms that the two paths share, as pairs of a statistic and its
  coefficient, in the order in which both add them.
\<close>

definition shared_kicking_terms :: "KickingScoring \<Rightarrow> (string \<times> double) list" where
  "shared_kicking_terms scoring =
     [(''fg_made_20_29'', Finite 5), (''fg_made_30_39'', Finite 5),
      (''fg_made_40_49'', Finite 6), (''fg_made_50_59'', Finite 7),
      (''fg_made_60_'', Finite 7),
      (''fg_missed_0_19'', fg_missed scoring), (''fg_missed_20_29'', fg_missed scoring),
      (''fg_missed_30_39'', fg_missed scoring), (''fg_missed_40_49'', fg_missed scoring),
      (''fg_missed_50_59'', fg_missed scoring), (''fg_missed_60_'', fg_missed scoring),
      (''pat_made'', extra_points scoring), (''pat_missed'', extra_points_missed scoring),
      (''pat_blocked'', extra_points_missed scoring)]"


section \<open>utils/validators.py\<close>

text \<open>
  Strings are lists of characters with code points below 256. \<open>is_py_space\<close> is the
  white space that \<open>str.strip\<close> removes there (\<open>str.isspace\<close>).
\<close>

definition is_py_space :: "char \<Rightarrow> bool" where
  "is_py_space c =
     (c \<in> set [CHR 0x09, CHR 0x0A, CHR 0x0B, CHR 0x0C, CHR 0x0D, CHR 0x1C, CHR 0x1D,
               CHR 0x1E, CHR 0x1F, CHR 0x20, CHR 0x85, CHR 0xA0])"

definition py_strip :: "string \<Rightarrow> string" where
  "py_strip s = rev (dropWhile is_py_space (rev (dropWhile is_py_space s)))"

text \<open>
  \<open>int\<close> skips less: the separators \<open>0x1C\<close> to \<open>0x1F\<close> are white space for \<open>str.strip\<close>
  but not for \<open>int\<close>, which raises \<open>ValueError\<close> on them.
\<close>

definition is_int_space :: "char \<Rightarrow> bool" where
  "is_int_space c =
     (c \<in> set [CHR 0x09, CHR 0x0A, CHR 0x0B, CHR 0x0C, CHR 0x0D, CHR 0x20, CHR 0x85, CHR 0xA0])"

definition int_strip :: "string \<Rightarrow> string" where
  "int_strip s = rev (dropWhile is_int_space (rev (dropWhile is_int_space s)))"

definition digit_val :: "char \<Rightarrow> nat option" where
  "digit_val =
     map_of [(CHR ''0'', 0), (CHR ''1'', 1), (CHR ''2'', 2), (CHR ''3'', 3), (CHR ''4'', 4),
             (CHR ''5'', 5), (CHR ''6'', 6), (CHR ''7'', 7), (CHR ''8'', 8), (CHR ''9'', 9)]"

text \<open>
  The digits of a decimal literal after the first one: single underscores may separate
  digits.
\<close>

fun py_digits :: "nat \<Rightarrow> string \<Rightarrow> nat option" where
  "py_digits acc [] = Some acc"
| "py_digits acc [c] =
     (case digit_val c of Some d \<Rightarrow> Some (10 * acc + d) | None \<Rightarrow> None)"
| "py_digits acc (c # c' # cs) =
     (case digit_val c of
        Some d \<Rightarrow> py_digits (10 * acc + d) (c' # cs)
      | None \<Rightarrow>
          if c = CHR ''_''
          then (case digit_val c' of Some d \<Rightarrow> py_digits (10 * acc + d) cs | None \<Rightarrow> None)
          else None)"

text \<open>
  \<open>int(s)\<close> for a string: \<open>None\<close> stands for the \<open>ValueError\<close> it raises, which it
  also does for a literal of more than 4300 digits (the default of
  \<open>sys.set_int_max_str_digits\<close>; the sign and the underscores are not counted).
\<close>

definition py_int_of_str :: "string \<Rightarrow> int option" where
  "py_int_of_str s =
     (let t = int_strip s;
          negative = (t \<noteq> [] \<and> hd t = CHR ''-'');
          body = (if t \<noteq> [] \<and> (hd t = CHR ''-'' \<or> hd t = CHR ''+'') then tl t else t)
      in if 4300 < length (filter (\<lambda>c. c \<noteq> CHR ''_'') body) then None
         else
           case body of
             [] \<Rightarrow> None
           | c # cs \<Rightarrow>
               (case digit_val c of
                  None \<Rightarrow> None
                | Some d \<Rightarrow>
                    (case py_digits d cs of
                       None \<Rightarrow> None
                     | Some n \<Rightarrow> Some (if negative then - int n else int n))))"

text \<open>\<open>str(n)\<close> for an integer.\<close>

function str_nat :: "nat \<Rightarrow> string" where
  "str_nat n = (if n < 10 then [''0123456789'' ! n] else str_nat (n div 10) @ [''0123456789'' ! (n mod 10)])"
  by pat_completeness auto
termination
  by (relation "measure id") auto

declare str_nat.simps [simp del]

definition str_int :: "int \<Rightarrow> string" where
  "str_int i = (if i < 0 then CHR ''-'' # str_nat (nat (- i)) else str_nat (nat i))"

text \<open>A week argument is an integer or a string.\<close>

datatype week_arg = WeekInt int | WeekStr string

definition str_week_arg :: "week_arg \<Rightarrow> string" where
  "str_week_arg w = (case w of WeekInt i \<Rightarrow> str_int i | WeekStr s \<Rightarrow> s)"

definition validate_week :: "week_arg \<Rightarrow> py_error + int" where
  "validate_week week =
     (case (case week of WeekInt i \<Rightarrow> Some i | WeekStr s \<Rightarrow> py_int_of_str s) of
        None \<Rightarrow>
          Inl (ValueError (''Invalid week: '' @ str_week_arg week @ ''. Must be a valid week number.''))
      | Some week_int \<Rightarrow>
          if week_int < 1 \<or> week_int > 18
          then Inl (ValueError (''Week '' @ str_int week_int @ '' is invalid. Must be between 1 and 18.''))
          else Inr week_int)"

text \<open>\<open>needle in hay\<close> for strings.\<close>

fun str_contains :: "string \<Rightarrow> string \<Rightarrow> bool" where
  "str_contains [] needle = (needle = [])"
| "str_contains (c # cs) needle =
     (take (length needle) (c # cs) = needle \<or> str_contains cs needle)"

text \<open>\<open>s.split(sep)\<close> for a one-character separator.\<close>

fun py_split :: "char \<Rightarrow> string \<Rightarrow> string list" where
  "py_split sep [] = [[]]"
| "py_split sep (c # cs) =
     (if c = sep then [] # py_split sep cs
      else (case py_split sep cs of [] \<Rightarrow> [[c]] | w # ws \<Rightarrow> (c # w) # ws))"

text \<open>\<open>s.split(sep, 1)\<close> when \<open>sep\<close> occurs in \<open>s\<close>: the parts before and after the first one.\<close>

definition py_split_first :: "char \<Rightarrow> string \<Rightarrow> string \<times> string" where
  "py_split_first sep s = (takeWhile (\<lambda>c. c \<noteq> sep) s, tl (dropWhile (\<lambda>c. c \<noteq> sep) s))"

datatype weeks_arg = WeeksStr string | WeeksList "week_arg list"

fun validate_each_week :: "week_arg list \<Rightarrow> py_error + int list" where
  "validate_each_week [] = Inr []"
| "validate_each_week (w # ws) =
     (case validate_week w of
        Inl e \<Rightarrow> Inl e
      | Inr v \<Rightarrow> (case validate_each_week ws of Inl e \<Rightarrow> Inl e | Inr vs \<Rightarrow> Inr (v # vs)))"

text \<open>The range branch: the body of the \<open>try\<close>, then the \<open>except ValueError\<close> handler.\<close>

definition week_range_try :: "string \<Rightarrow> py_error + int list" where
  "week_range_try weeks =
     (let (start_str, end_str) = py_split_first CHR ''-'' weeks
      in case validate_week (WeekStr start_str) of
           Inl e \<Rightarrow> Inl e
         | Inr start_week \<Rightarrow>
             (case validate_week (WeekStr end_str) of
                Inl e \<Rightarrow> Inl e
              | Inr end_week \<Rightarrow>
                  if start_week > end_week
                  then Inl (ValueError (''Invalid week range: '' @ weeks
                                         @ ''. Start week must be <= end week.''))
                  else Inr [start_week..end_week]))"

definition week_range_except :: "string \<Rightarrow> py_error \<Rightarrow> py_error" where
  "week_range_except weeks e =
     (case e of
        ValueError msg \<Rightarrow>
          if str_contains msg ''Invalid week range'' then e
          else ValueError (''Invalid week range format: '' @ weeks @ ''. Use format like '' @ [CHR 0x27] @ ''1-17'' @ [CHR 0x27] @ ''.'')
      | _ \<Rightarrow> e)"

definition validate_weeks_list :: "weeks_arg \<Rightarrow> py_error + int list" where
  "validate_weeks_list weeks =
     (case weeks of
        WeeksStr s \<Rightarrow>
          if CHR ''-'' \<in> set s \<and> CHR '','' \<notin> set s
          then (case week_range_try s of
                  Inl e \<Rightarrow> Inl (week_range_except s e)
                | Inr r \<Rightarrow> Inr r)
          else (case validate_each_week (map (\<lambda>w. WeekStr (py_strip w)) (py_split CHR '','' s)) of
                  Inl e \<Rightarrow> Inl e
                | Inr vs \<Rightarrow> Inr (sort (remdups vs)))
      | WeeksList ws \<Rightarrow>
          (case validate_each_week ws of
             Inl e \<Rightarrow> Inl e
           | Inr vs \<Rightarrow> Inr (sort (remdups vs))))"


section \<open>Example inputs and auxiliary predicates\<close>

text \<open>A quarterback with two games of ten points each.\<close>

definition ex_qb :: season_row where
  "ex_qb = \<lparr> player_id = ''qb1'', season = 2024, position = ''QB'', games_played = 2,
     total_fantasy_points_mppr = 20, avg_fantasy_points_mppr = 10,
     player_name = None, team = None \<rparr>"

text \<open>
  The team context that \<open>_calculate_team_scoring_context\<close> computes when \<open>ex_qb\<close> is
  the only player: the mean is his total and the deviation is raised to 1.
\<close>

definition ex_qb_context :: team_context where
  "ex_qb_context = \<lparr> team_avg_score = 20, team_score_std = 1 \<rparr>"

definition ex_context :: team_context where
  "ex_context = \<lparr> team_avg_score = 10, team_score_std = 10 \<rparr>"

text \<open>The relation between consecutive entries of a curve, used in the proofs.\<close>

definition marginal_ok :: "curve_point list \<Rightarrow> bool" where
  "marginal_ok pts =
     (\<forall>i < length pts.
        marginal_war (pts ! i) = war (pts ! i) - (if i = 0 then 0 else war (pts ! (i - 1))))"

text \<open>Five quarterbacks in a league of four teams with one quarterback slot each.\<close>

definition qb_row :: "string \<Rightarrow> real \<Rightarrow> season_row" where
  "qb_row pid pts = \<lparr> player_id = pid, season = 2024, position = ''QB'', games_played = 1,
     total_fantasy_points_mppr = pts, avg_fantasy_points_mppr = pts,
     player_name = None, team = None \<rparr>"

definition ex_five_qbs :: "season_row list" where
  "ex_five_qbs =
     [qb_row ''a'' 30, qb_row ''b'' 50, qb_row ''c'' 10, qb_row ''d'' 20, qb_row ''e'' 40]"

definition ex_league4 :: LeagueConfig where
  "ex_league4 = fal_league \<lparr> teams := 4 \<rparr>"

text \<open>
  Two kickers: one with a made field goal of 0 to 19 yards, a miss and an extra point,
  and one without a made field goal of 0 to 19 yards.
\<close>

definition ex_kicker_rounding :: stats where
  "ex_kicker_rounding =
     [''fg_made_0_19'' \<mapsto> Finite 1, ''fg_missed_0_19'' \<mapsto> Finite 1, ''pat_made'' \<mapsto> Finite 1]"

definition ex_kicker_plain :: stats where
  "ex_kicker_plain =
     [''fg_made_40_49'' \<mapsto> Finite 2, ''fg_missed_50_59'' \<mapsto> Finite 1, ''pat_made'' \<mapsto> Finite 3]"

text \<open>A league without a dedicated tight-end slot, and a table with one tight end.\<close>

definition ex_te_roster_league :: LeagueConfig where
  "ex_te_roster_league = fal_league \<lparr> roster := default_roster \<lparr> te_max := 0 \<rparr> \<rparr>"

definition ex_te :: season_row where
  "ex_te = \<lparr> player_id = ''te1'', season = 2024, position = ''TE'', games_played = 10,
     total_fantasy_points_mppr = 80, avg_fantasy_points_mppr = 8,
     player_name = None, team = None \<rparr>"

text \<open>A table with a single qualified quarterback.\<close>

definition ex_single_qb :: season_row where
  "ex_single_qb = \<lparr> player_id = ''qb1'', season = 2024, position = ''QB'', games_played = 17,
     total_fantasy_points_mppr = 300, avg_fantasy_points_mppr = 300 / 17,
     player_name = None, team = None \<rparr>"

text \<open>A league analysis with one quarterback of one win above replacement.\<close>

definition ex_war_result :: WARResult where
  "ex_war_result = \<lparr> wr_player_id = ''qb1'', wr_season = 2024, wr_position = ''QB'',
     wr_player_name = None, wr_team = None, wr_games_played = 16, weeks_analyzed = [1],
     total_fantasy_points = 300, average_fantasy_points = 300 / 16,
     win_percentage = 3 / 4, expected_wins = 12,
     replacement_win_percentage = 11 / 16, replacement_expected_wins = 11,
     wins_above_replacement = 1, wins_above_average = 0,
     team_average_score = 100, wr_team_score_std = 20 \<rparr>"

definition ex_league_war :: LeagueWAR where
  "ex_league_war = \<lparr> lw_season = 2024, league_name = ''Fantasy Analytical League'',
     position_results =
       [(''QB'', \<lparr> pw_position = ''QB'', pw_season = 2024, total_teams = 16,
                   starters_per_team = 1, total_starter_spots = 16,
                   replacement_level_rank = 1, replacement_player_id = Some ''qb1'',
                   player_wars = [ex_war_result] \<rparr>)],
     auction_values = [], total_auction_value = 0, dollars_per_war_league_average = 0 \<rparr>"

section \<open>The normal distribution function\<close>

lemma gauss_deriv_sums:
  "(\<lambda>n. gauss_coeff n * real (Suc n) * x ^ n) sums exp (- (x\<^sup>2))"
proof -
  have e: "(\<lambda>k. (- (x\<^sup>2)) ^ k /\<^sub>R fact k) sums exp (- (x\<^sup>2))"
    by (rule exp_converges)
  have z: "(\<lambda>k::nat. 0::real) sums 0" by simp
  have "(\<lambda>n. if even n then (- (x\<^sup>2)) ^ (n div 2) /\<^sub>R fact (n div 2) else 0)
          sums (0 + exp (- (x\<^sup>2)))"
    using sums_if [OF z e] by simp
  moreover have "(\<lambda>n. if even n then (- (x\<^sup>2)) ^ (n div 2) /\<^sub>R fact (n div 2) else 0)
      = (\<lambda>n. gauss_coeff n * real (Suc n) * x ^ n)"
  proof
    fix n :: nat
    show "(if even n then (- (x\<^sup>2)) ^ (n div 2) /\<^sub>R fact (n div 2) else 0)
      = gauss_coeff n * real (Suc n) * x ^ n"
    proof (cases "even n")
      case True
      then obtain k where k: "n = 2 * k" by (auto elim: evenE)
      have p: "(- (x\<^sup>2)) ^ k = (- 1) ^ k * x ^ (2 * k)"
        by (simp add: power_minus [of "x\<^sup>2"] power_mult)
      have nz: "real (Suc (2 * k)) \<noteq> 0" by simp
      have "gauss_coeff (2 * k) * real (Suc (2 * k)) = (- 1) ^ k / fact k"
        unfolding gauss_coeff_def using nz by (simp del: of_nat_Suc)
      then show ?thesis
        using True k p by (simp add: divide_inverse mult.commute)
    next
      case False
      then show ?thesis by (simp add: gauss_coeff_def)
    qed
  qed
  ultimately show ?thesis by simp
qed

lemma DERIV_gauss_int: "DERIV gauss_int x :> exp (- (x\<^sup>2))"
proof -
  define R where "R = \<bar>x\<bar> + 1"
  have "DERIV (\<lambda>x. (\<Sum>n. gauss_coeff n * x ^ Suc n)) x
          :> (\<Sum>n. gauss_coeff n * real (Suc n) * x ^ n)"
  proof (rule DERIV_power_series' [where R = R])
    fix y :: real
    show "summable (\<lambda>n. gauss_coeff n * real (Suc n) * y ^ n)"
      using gauss_deriv_sums [of y] by (rule sums_summable)
  next
    show "x \<in> {- R<..<R}" by (auto simp: R_def)
  next
    show "0 < R" by (simp add: R_def)
  qed
  moreover have "(\<Sum>n. gauss_coeff n * real (Suc n) * x ^ n) = exp (- (x\<^sup>2))"
    using gauss_deriv_sums [of x] by (rule sums_unique [symmetric])
  ultimately show ?thesis
    by (simp add: gauss_int_def [abs_def])
qed

lemma DERIV_std_normal_cdf:
  "DERIV std_normal_cdf z :> exp (- ((z / sqrt 2)\<^sup>2)) / (sqrt 2 * sqrt pi)"
  unfolding std_normal_cdf_def [abs_def]
  by (auto intro!: derivative_eq_intros DERIV_chain' [OF _ DERIV_gauss_int] simp: field_simps)

lemma std_normal_cdf_strict_mono:
  assumes "a < b"
  shows "std_normal_cdf a < std_normal_cdf b"
proof (rule DERIV_pos_imp_increasing [OF assms])
  fix x :: real
  have "0 < exp (- ((x / sqrt 2)\<^sup>2)) / (sqrt 2 * sqrt pi)" by simp
  then show "\<exists>y. DERIV std_normal_cdf x :> y \<and> 0 < y"
    using DERIV_std_normal_cdf by blast
qed

lemma std_normal_cdf_mono: "a \<le> b \<Longrightarrow> std_normal_cdf a \<le> std_normal_cdf b"
  using std_normal_cdf_strict_mono [of a b] by (cases "a = b") auto

lemma std_normal_cdf_0: "std_normal_cdf 0 = 1 / 2"
  by (simp add: std_normal_cdf_def gauss_int_def)


section \<open>Win probability\<close>

lemma norm_cdf_mono:
  assumes "0 < sd" and "s \<le> s'"
  shows "norm_cdf s m sd \<le> norm_cdf s' m sd"
proof -
  have "(s - m) / sd \<le> (s' - m) / sd"
    using assms by (simp add: divide_right_mono)
  then show ?thesis
    unfolding norm_cdf_def by (rule std_normal_cdf_mono)
qed

text \<open>
  Range, monotonicity and the value at the mean of the real-valued model of
  \<open>calculate_win_probability\<close>; the WAR of a player and the curve below rest on them.
\<close>

lemma win_probability_bounds:
  "0 \<le> calculate_win_probability s m sd" "calculate_win_probability s m sd \<le> 1"
  by (simp_all add: calculate_win_probability_def Let_def)

lemma win_probability_mono:
  assumes "s \<le> s'"
  shows "calculate_win_probability s m sd \<le> calculate_win_probability s' m sd"
proof -
  define e where "e = (if sd \<le> 0 then 1 else sd)"
  have "0 < e" by (simp add: e_def)
  then have "norm_cdf s m e \<le> norm_cdf s' m e"
    using assms by (rule norm_cdf_mono)
  then show ?thesis
    unfolding calculate_win_probability_def Let_def e_def [symmetric]
    by (simp add: min_def max_def)
qed

lemma win_probability_at_mean: "calculate_win_probability m m sd = 1 / 2"
  by (simp add: calculate_win_probability_def norm_cdf_def std_normal_cdf_0 Let_def)

lemma win_probability_above_mean:
  assumes "m < s" and "0 < sd"
  shows "1 / 2 < calculate_win_probability s m sd"
proof -
  have "0 < (s - m) / sd" using assms by simp
  then have "std_normal_cdf 0 < std_normal_cdf ((s - m) / sd)"
    by (rule std_normal_cdf_strict_mono)
  then show ?thesis
    using assms by (simp add: calculate_win_probability_def norm_cdf_def std_normal_cdf_0 Let_def)
qed

lemma win_probability_below_mean:
  assumes "s < m" and "0 < sd"
  shows "calculate_win_probability s m sd < 1 / 2"
proof -
  have "(s - m) / sd < 0" using assms by (simp add: divide_neg_pos)
  then have "std_normal_cdf ((s - m) / sd) < std_normal_cdf 0"
    by (rule std_normal_cdf_strict_mono)
  then show ?thesis
    using assms by (simp add: calculate_win_probability_def norm_cdf_def std_normal_cdf_0 Let_def)
qed


section \<open>The value-over-replacement curve\<close>

lemma marginal_ok_snoc:
  assumes "marginal_ok acc"
    and "marginal_war p = war p - (if acc \<noteq> [] then war (last acc) else 0)"
  shows "marginal_ok (acc @ [p])"
  unfolding marginal_ok_def
proof (intro allI impI)
  fix i
  assume i: "i < length (acc @ [p])"
  show "marginal_war ((acc @ [p]) ! i) =
          war ((acc @ [p]) ! i) - (if i = 0 then 0 else war ((acc @ [p]) ! (i - 1)))"
  proof (cases "i < length acc")
    case True
    then show ?thesis
      using assms(1) by (auto simp: marginal_ok_def nth_append)
  next
    case False
    then have e: "i = length acc" using i by simp
    show ?thesis
    proof (cases "acc = []")
      case True
      then show ?thesis using e assms(2) by simp
    next
      case False
      then have "last acc = acc ! (length acc - 1)" by (rule last_conv_nth)
      then show ?thesis
        using e False assms(2) by (simp add: nth_append)
    qed
  qed
qed

lemma curve_loop_marginal_ok:
  "marginal_ok acc \<Longrightarrow> marginal_ok (curve_loop rwp tc acc ps)"
proof (induction ps arbitrary: acc)
  case Nil
  then show ?case by simp
next
  case (Cons p ps)
  show ?case
    unfolding curve_loop.simps Let_def
    by (rule Cons.IH, rule marginal_ok_snoc [OF Cons.prems]) simp
qed

lemma length_curve_loop: "length (curve_loop rwp tc acc ps) = length acc + length ps"
  by (induction ps arbitrary: acc) (simp_all add: Let_def)

lemma np_linspace_length:
  "0 \<le> num \<Longrightarrow> \<exists>vs. np_linspace a b num = Inr vs \<and> length vs = nat num"
  by (auto simp: np_linspace_def)

text \<open>
  Claim C8, as amended. For a range with \<open>min < max\<close> and at least one grid point,
  \<open>calculate_value_over_replacement_curve\<close> returns one entry per grid point; the
  first entry's \<open>marginal_war\<close> equals its own \<open>war\<close> (the previous value is taken
  as 0), and every later entry's \<open>marginal_war\<close> is its \<open>war\<close> minus the previous
  entry's. For a range with \<open>min \<ge> max\<close> the result is the empty list.
\<close>

theorem curve_marginal_war:
  "(min_points < max_points \<and> 1 \<le> num_points \<longrightarrow>
      (\<exists>pts. calculate_value_over_replacement_curve (min_points, max_points) rep tc num_points
                = Inr pts
         \<and> length pts = nat num_points
         \<and> marginal_war (pts ! 0) = war (pts ! 0)
         \<and> (\<forall>i. 0 < i \<and> i < length pts \<longrightarrow>
               marginal_war (pts ! i) = war (pts ! i) - war (pts ! (i - 1)))))
   \<and> (max_points \<le> min_points \<longrightarrow>
        calculate_value_over_replacement_curve (min_points, max_points) rep tc num_points = Inr [])"
proof (intro conjI impI)
  assume a: "min_points < max_points \<and> 1 \<le> num_points"
  then obtain vs where vs: "np_linspace min_points max_points num_points = Inr vs"
      "length vs = nat num_points"
    using np_linspace_length [of num_points min_points max_points] by auto
  define rwp where
    "rwp = calculate_win_probability rep (team_avg_score tc) (team_score_std tc)"
  define pts where "pts = curve_loop rwp tc [] vs"
  have r: "calculate_value_over_replacement_curve (min_points, max_points) rep tc num_points
             = Inr pts"
    using a vs(1) by (simp add: calculate_value_over_replacement_curve_def pts_def rwp_def)
  have l: "length pts = nat num_points"
    by (simp add: pts_def length_curve_loop vs(2))
  have "marginal_ok []" by (simp add: marginal_ok_def)
  then have m: "marginal_ok pts"
    unfolding pts_def by (rule curve_loop_marginal_ok)
  have pos: "0 < length pts" using l a by simp
  have first: "marginal_war (pts ! 0) = war (pts ! 0)"
    using m pos by (simp add: marginal_ok_def)
  have rest: "\<forall>i. 0 < i \<and> i < length pts \<longrightarrow>
               marginal_war (pts ! i) = war (pts ! i) - war (pts ! (i - 1))"
    using m by (simp add: marginal_ok_def)
  show "\<exists>pts. calculate_value_over_replacement_curve (min_points, max_points) rep tc num_points
                = Inr pts
         \<and> length pts = nat num_points
         \<and> marginal_war (pts ! 0) = war (pts ! 0)
         \<and> (\<forall>i. 0 < i \<and> i < length pts \<longrightarrow>
               marginal_war (pts ! i) = war (pts ! i) - war (pts ! (i - 1)))"
    using r l first rest by blast
next
  assume "max_points \<le> min_points"
  then show "calculate_value_over_replacement_curve (min_points, max_points) rep tc num_points
               = Inr []"
    by (simp add: calculate_value_over_replacement_curve_def)
qed

lemma ex_linspace: "np_linspace 10 20 2 = Inr [10, 20]"
  by (simp add: np_linspace_def numeral_2_eq_2)

text \<open>
  Claim C8 as stated fails: on the range (10, 20) with two grid points, replacement
  level 0 and team scores of mean 10 and deviation 10, the first entry's
  \<open>marginal_war\<close> is its \<open>war\<close>, which is positive, not 0.
\<close>

theorem curve_first_marginal_war_counterexample:
  "(case calculate_value_over_replacement_curve (10, 20) 0 ex_context 2 of
      Inr (p # ps) \<Rightarrow> war p = marginal_war p \<and> 0 < marginal_war p
    | _ \<Rightarrow> False)"
proof -
  have a: "calculate_win_probability 0 10 10 < 1 / 2"
    by (rule win_probability_below_mean) simp_all
  have b: "calculate_win_probability 10 10 10 = 1 / 2"
    by (rule win_probability_at_mean)
  show ?thesis
    using a
    by (simp add: calculate_value_over_replacement_curve_def ex_linspace Let_def
        ex_context_def b)
qed

theorem curve_marginal_war_witness:
  "(\<exists>pts. calculate_value_over_replacement_curve (10, 20) 0 ex_context 2 = Inr pts
      \<and> length pts = 2
      \<and> marginal_war (pts ! 1) = war (pts ! 1) - war (pts ! 0))
   \<and> calculate_value_over_replacement_curve (20, 10) 0 ex_context 2 = Inr []"
proof -
  have "(10::real) < 20 \<and> (1::int) \<le> 2" by simp
  then obtain pts where p:
      "calculate_value_over_replacement_curve (10, 20) 0 ex_context 2 = Inr pts"
      "length pts = nat 2"
      "\<forall>i. 0 < i \<and> i < length pts \<longrightarrow>
               marginal_war (pts ! i) = war (pts ! i) - war (pts ! (i - 1))"
    using curve_marginal_war [of 10 20 2 0 ex_context] by blast
  have "marginal_war (pts ! 1) = war (pts ! 1) - war (pts ! 0)"
    using p(2) p(3) [rule_format, of 1] by simp
  moreover have "calculate_value_over_replacement_curve (20, 10) 0 ex_context 2 = Inr []"
    using curve_marginal_war [of 20 10 2 0 ex_context] by simp
  ultimately show ?thesis using p(1) p(2) by auto
qed


section \<open>Replacement level\<close>

lemma set_sort_desc [simp]: "set (sort_desc k xs) = set xs"
  by (simp add: sort_desc_def)

lemma length_sort_desc [simp]: "length (sort_desc k xs) = length xs"
  by (simp add: sort_desc_def)

lemma sort_desc_Nil_iff [simp]: "sort_desc k xs = [] \<longleftrightarrow> xs = []"
  using length_sort_desc [of k xs] by (metis length_0_conv)

lemma sort_desc_single: "sort_desc k [x] = [x]"
  by (simp add: sort_desc_def)

lemma sort_desc_nth_mono:
  assumes "i \<le> j" and "j < length xs"
  shows "k (sort_desc k xs ! j) \<le> k (sort_desc k xs ! i)"
proof -
  have s: "sorted (map (\<lambda>x. - k x) (sort_desc k xs))"
    by (simp add: sort_desc_def)
  have "map (\<lambda>x. - k x) (sort_desc k xs) ! i \<le> map (\<lambda>x. - k x) (sort_desc k xs) ! j"
    using s assms by (intro sorted_nth_mono) simp_all
  then show ?thesis using assms by simp
qed

lemma series_mean_at_least:
  assumes "xs \<noteq> []" and "\<forall>x \<in> set xs. c \<le> x"
  shows "\<exists>m. series_mean xs = Some m \<and> c \<le> m"
proof -
  have "real (length xs) * c \<le> sum_list xs"
    using assms(2)
  proof (induction xs)
    case Nil
    then show ?case by simp
  next
    case (Cons x xs)
    then show ?case by (simp add: algebra_simps)
  qed
  moreover have "0 < real (length xs)" using assms(1) by simp
  ultimately have "c \<le> sum_list xs / real (length xs)"
    by (simp add: pos_le_divide_eq mult.commute)
  then show ?thesis using assms(1) by (simp add: series_mean_def)
qed

lemma series_mean_Some: "xs \<noteq> [] \<Longrightarrow> \<exists>m. series_mean xs = Some m"
  by (simp add: series_mean_def)

lemma df_tail_1: "xs \<noteq> [] \<Longrightarrow> df_tail (Suc 0) xs = [last xs]"
  by (induction xs rule: rev_induct) (simp_all add: df_tail_def)

lemma last_take_nth:
  assumes "xs \<noteq> []" and "0 < n"
  shows "last (take n xs) = xs ! ((if n \<le> length xs then n else length xs) - 1)"
proof -
  have ne: "take n xs \<noteq> []" using assms by simp
  have "last (take n xs) = take n xs ! (length (take n xs) - 1)"
    using ne by (rule last_conv_nth)
  also have "\<dots> = xs ! (min (length xs) n - 1)"
    using assms by (cases xs) (simp_all add: min_def)
  finally show ?thesis by (simp add: min_def)
qed

text \<open>
  Claim C2. For a position with a positive maximum of starters and at least one
  qualified player, \<open>find_replacement_level\<close> returns a replacement rank equal to
  team count times maximum starters when that many qualified players exist, and equal
  to the number of qualified players otherwise. The replacement player is the last row
  of the top-N slice of the players sorted by total points, descending: no player of
  the slice has fewer points and no player outside it has more.
\<close>

theorem find_replacement_level_worst_starter:
  assumes "LeagueConfig_valid cfg"
    and "0 < snd (get_position_requirements (roster cfg) pos)"
    and "qualified_players_at cfg stats_df pos \<noteq> []"
  shows "\<exists>info. find_replacement_level cfg stats_df pos = Inr (Some info)
     \<and> (let n_qualified = length (qualified_players_at cfg stats_df pos);
             pool_size = teams cfg * snd (get_position_requirements (roster cfg) pos);
             ranked = sort_desc total_fantasy_points_mppr (qualified_players_at cfg stats_df pos);
             pool = take pool_size ranked;
             rep = ranked ! (ri_rank info - 1)
         in ri_rank info = (if pool_size \<le> n_qualified then pool_size else n_qualified)
            \<and> rep = last pool
            \<and> ri_player_id info = player_id rep
            \<and> ri_total_fantasy_points info = total_fantasy_points_mppr rep
            \<and> ri_avg_fantasy_points info = avg_fantasy_points_mppr rep
            \<and> ri_games_played info = games_played rep
            \<and> set ranked = set (qualified_players_at cfg stats_df pos)
            \<and> (\<forall>r \<in> set pool. total_fantasy_points_mppr rep \<le> total_fantasy_points_mppr r)
            \<and> (\<forall>r \<in> set (drop pool_size ranked).
                  total_fantasy_points_mppr r \<le> total_fantasy_points_mppr rep))"
proof -
  define Q where "Q = qualified_players_at cfg stats_df pos"
  define max_req where "max_req = snd (get_position_requirements (roster cfg) pos)"
  define N where "N = teams cfg * max_req"
  define ranked where "ranked = sort_desc total_fantasy_points_mppr Q"
  define pool where "pool = take N ranked"
  define rank where "rank = (if N \<le> length Q then N else length Q)"
  define rep where "rep = ranked ! (rank - 1)"
  have Npos: "0 < N"
    using assms(1,2) by (simp add: N_def max_req_def LeagueConfig_valid_def)
  have Qne: "Q \<noteq> []" using assms(3) by (simp add: Q_def)
  have rne: "ranked \<noteq> []" using Qne by (simp add: ranked_def)
  have lr: "length ranked = length Q" by (simp add: ranked_def)
  have pne: "pool \<noteq> []" using rne Npos by (simp add: pool_def)
  have rank_pos: "0 < rank" "rank \<le> length ranked"
    using Npos Qne lr by (auto simp: rank_def)
  have lastp: "last pool = rep"
    using last_take_nth [OF rne Npos] by (simp add: pool_def rep_def rank_def lr)
  have games: "\<forall>r \<in> set pool. 1 \<le> games_played r"
  proof
    fix r assume "r \<in> set pool"
    then have "r \<in> set ranked" unfolding pool_def by (rule in_set_takeD)
    then have "r \<in> set Q" by (simp add: ranked_def)
    then have "real (minimum_games_played cfg) \<le> games_played r"
      by (simp add: Q_def qualified_players_at_def)
    moreover have "1 \<le> real (minimum_games_played cfg)"
      using assms(1) by (simp add: LeagueConfig_valid_def)
    ultimately show "1 \<le> games_played r" by linarith
  qed
  obtain mg where mg: "series_mean (map games_played pool) = Some mg" "1 \<le> mg"
    using series_mean_at_least [of "map games_played pool" 1] pne games by auto
  obtain ma where ma: "series_mean (map avg_fantasy_points_mppr pool) = Some ma"
    using series_mean_Some [of "map avg_fantasy_points_mppr pool"] pne by auto
  obtain mt where mt: "series_mean (map total_fantasy_points_mppr pool) = Some mt"
    using series_mean_Some [of "map total_fantasy_points_mppr pool"] pne by auto
  define info where "info =
     \<lparr> ri_player_id = player_id rep, ri_rank = rank, ri_total_starters = N,
       ri_avg_fantasy_points = avg_fantasy_points_mppr rep,
       ri_total_fantasy_points = total_fantasy_points_mppr rep,
       ri_games_played = games_played rep,
       ri_position_avg_fantasy_points = ma,
       ri_avg_starter_info = Some \<lparr> si_avg_fantasy_points = mt / mg,
         si_total_fantasy_points = mt, si_games_played = mg \<rparr>,
       ri_avg_starter_win_prob = 1 / 2 \<rparr>"
  have gpr: "get_position_requirements (roster cfg) pos
               = (fst (get_position_requirements (roster cfg) pos), max_req)"
    by (simp add: max_req_def)
  have mr: "max_req \<noteq> 0" using assms(2) by (simp add: max_req_def)
  have rank_eq: "(if length ranked < N then length ranked else N) = rank"
    by (auto simp: rank_def lr)
  have res: "find_replacement_level cfg stats_df pos = Inr (Some info)"
    unfolding find_replacement_level_def
    apply (subst gpr)
    apply (simp only: split_conv Let_def)
    apply (fold Q_def N_def)
    apply (fold ranked_def)
    apply (fold pool_def)
    using mr pne mg ma mt lastp rank_eq
    apply (simp add: df_tail_1 info_def)
    done
  have better: "\<forall>r \<in> set pool. total_fantasy_points_mppr rep \<le> total_fantasy_points_mppr r"
  proof
    fix r assume "r \<in> set pool"
    then obtain i where i: "i < length pool" "pool ! i = r"
      by (auto simp: in_set_conv_nth)
    have li: "i < N" "i < length ranked" using i(1) by (simp_all add: pool_def)
    have ri: "ranked ! i = r" using i li by (simp add: pool_def)
    have "i \<le> rank - 1" using li by (auto simp: rank_def lr)
    moreover have "rank - 1 < length Q" using rank_pos lr by simp
    ultimately have "total_fantasy_points_mppr (ranked ! (rank - 1))
                       \<le> total_fantasy_points_mppr (ranked ! i)"
      unfolding ranked_def by (rule sort_desc_nth_mono)
    then show "total_fantasy_points_mppr rep \<le> total_fantasy_points_mppr r"
      by (simp add: rep_def ri)
  qed
  have worse: "\<forall>r \<in> set (drop N ranked).
                  total_fantasy_points_mppr r \<le> total_fantasy_points_mppr rep"
  proof
    fix r assume "r \<in> set (drop N ranked)"
    then obtain i where i: "i < length (drop N ranked)" "drop N ranked ! i = r"
      by (auto simp: in_set_conv_nth)
    have li: "N + i < length ranked" using i(1) by simp
    have ri: "ranked ! (N + i) = r" using i li by simp
    have "rank - 1 \<le> N + i" by (auto simp: rank_def)
    moreover have "N + i < length Q" using li lr by simp
    ultimately have "total_fantasy_points_mppr (ranked ! (N + i))
                       \<le> total_fantasy_points_mppr (ranked ! (rank - 1))"
      unfolding ranked_def by (rule sort_desc_nth_mono)
    then show "total_fantasy_points_mppr r \<le> total_fantasy_points_mppr rep"
      by (simp add: rep_def ri)
  qed
  have sets: "set ranked = set Q" by (simp add: ranked_def)
  have rk: "ri_rank info = rank" by (simp add: info_def)
  have rp: "ranked ! (ri_rank info - 1) = rep" by (simp add: rk rep_def)
  have c1: "ri_rank info = (if N \<le> length Q then N else length Q)"
    by (simp add: rk rank_def)
  have c2: "ranked ! (ri_rank info - 1) = last (take N ranked)"
    unfolding rp using lastp by (simp add: pool_def)
  have c3: "ri_player_id info = player_id (ranked ! (ri_rank info - 1))"
       "ri_total_fantasy_points info = total_fantasy_points_mppr (ranked ! (ri_rank info - 1))"
       "ri_avg_fantasy_points info = avg_fantasy_points_mppr (ranked ! (ri_rank info - 1))"
       "ri_games_played info = games_played (ranked ! (ri_rank info - 1))"
    unfolding rp by (simp_all add: info_def)
  have c4: "\<forall>r \<in> set (take N ranked).
              total_fantasy_points_mppr (ranked ! (ri_rank info - 1)) \<le> total_fantasy_points_mppr r"
    unfolding rp using better by (simp add: pool_def)
  have c5: "\<forall>r \<in> set (drop N ranked).
              total_fantasy_points_mppr r \<le> total_fantasy_points_mppr (ranked ! (ri_rank info - 1))"
    unfolding rp using worse by simp
  show ?thesis
    unfolding Let_def Q_def [symmetric] max_req_def [symmetric] N_def [symmetric]
      ranked_def [symmetric]
    using res c1 c2 c3 c4 c5 sets by blast
qed

lemma ex_five_qbs_qualified:
  "qualified_players_at ex_league4 ex_five_qbs ''QB'' = ex_five_qbs"
  by (simp add: qualified_players_at_def ex_five_qbs_def qb_row_def ex_league4_def fal_league_def)

lemma ex_five_qbs_ranked:
  "sort_desc total_fantasy_points_mppr ex_five_qbs
     = [qb_row ''b'' 50, qb_row ''e'' 40, qb_row ''a'' 30, qb_row ''d'' 20, qb_row ''c'' 10]"
  by (simp add: sort_desc_def ex_five_qbs_def qb_row_def)

theorem find_replacement_level_worst_starter_witness:
  "\<exists>info. find_replacement_level ex_league4 ex_five_qbs ''QB'' = Inr (Some info)
     \<and> ri_rank info = 4 \<and> ri_player_id info = ''d'' \<and> ri_total_fantasy_points info = 20"
proof -
  have v: "LeagueConfig_valid ex_league4"
    by (simp add: LeagueConfig_valid_def ex_league4_def fal_league_def)
  have m: "snd (get_position_requirements (roster ex_league4) ''QB'') = 1"
    by (simp add: get_position_requirements_def ex_league4_def fal_league_def default_roster_def)
  have p: "0 < snd (get_position_requirements (roster ex_league4) ''QB'')"
    by (simp add: m)
  have t: "teams ex_league4 = 4" by (simp add: ex_league4_def)
  have l: "length ex_five_qbs = 5" by (simp add: ex_five_qbs_def)
  have q: "qualified_players_at ex_league4 ex_five_qbs ''QB'' \<noteq> []"
    unfolding ex_five_qbs_qualified using l by auto
  obtain info where i:
    "find_replacement_level ex_league4 ex_five_qbs ''QB'' = Inr (Some info)"
    "ri_rank info = (if 4 \<le> length ex_five_qbs then 4 else length ex_five_qbs)"
    "ri_player_id info
       = player_id (sort_desc total_fantasy_points_mppr ex_five_qbs ! (ri_rank info - 1))"
    "ri_total_fantasy_points info
       = total_fantasy_points_mppr (sort_desc total_fantasy_points_mppr ex_five_qbs ! (ri_rank info - 1))"
    using find_replacement_level_worst_starter [OF v p q]
    unfolding Let_def ex_five_qbs_qualified m t by auto
  have r: "ri_rank info = 4" using i(2) l by simp
  have "ri_player_id info = ''d''"
    unfolding i(3) r ex_five_qbs_ranked by (simp add: qb_row_def)
  moreover have "ri_total_fantasy_points info = 20"
    unfolding i(4) r ex_five_qbs_ranked by (simp add: qb_row_def)
  ultimately show ?thesis using i(1) r by blast
qed


section \<open>Flex replacement level\<close>

lemma find_flex_replacement_level_never_returns_info:
  "find_flex_replacement_level cfg stats_df flex_positions flex_spots \<noteq> Inr (Some info)"
  unfolding find_flex_replacement_level_def Let_def lookup_name_def
  by (simp split: option.splits prod.splits)

text \<open>
  Claim C6, at a failing input. In a league whose roster has no dedicated tight-end
  slot, a table with one tight end has one flex-eligible player that no dedicated slot
  consumes. \<open>find_flex_replacement_level\<close> finds him as the replacement player and
  builds \<open>flex_replacement_info\<close>, but the log message before \<open>return\<close> reads the
  unbound name \<open>replacement_info\<close>: the call raises \<open>NameError\<close> instead of returning
  the dictionary.
\<close>

theorem flex_replacement_raises_name_error:
  "flex_eligible_players ex_te_roster_league [ex_te] [''RB'', ''WR'', ''TE''] = [ex_te]
   \<and> find_flex_replacement_level ex_te_roster_league [ex_te] [''RB'', ''WR'', ''TE''] 16
       = Inl (NameError ''replacement_info'')"
proof -
  have e: "flex_eligible_players ex_te_roster_league [ex_te] [''RB'', ''WR'', ''TE''] = [ex_te]"
    by (simp add: flex_eligible_players_def ex_te_roster_league_def fal_league_def
        default_roster_def get_position_requirements_def ex_te_def sort_desc_def)
  show ?thesis
    unfolding find_flex_replacement_level_def e
    by (simp add: Let_def df_head_def series_mean_def ex_te_def lookup_name_def)
qed


section \<open>Positional scarcity\<close>

lemma position_scarcity_no_players:
  "qualified_players_at cfg stats_df pos = [] \<Longrightarrow> position_scarcity cfg stats_df pos = Inr 1"
  by (simp add: position_scarcity_def)

lemma position_scarcity_le_cap:
  "position_scarcity cfg stats_df pos = Inr m \<Longrightarrow> m \<le> 2"
  unfolding position_scarcity_def Let_def
  by (auto split: if_splits option.splits)

lemma auction_position_scarcity_le_cap: "auction_position_scarcity p \<le> 18 / 10"
proof -
  have "min x (18 / 10) \<le> 18 / 10" for x :: real by (rule min.cobounded2)
  then show ?thesis
    unfolding auction_position_scarcity_def Let_def by (simp del: min_less_iff_conj)
qed

lemma auction_position_scarcity_default:
  "length (qualified_players p) < 2 \<Longrightarrow> auction_position_scarcity p = 1"
  unfolding auction_position_scarcity_def Let_def by simp

text \<open>
  Claim C7, at a failing input. With exactly one qualified quarterback of positive
  points, the replacement-level calculator's \<open>calculate_positional_scarcity\<close> takes
  the sample standard deviation of a single value, which is null, and divides it by the
  mean: the call raises \<open>TypeError\<close> instead of giving the multiplier 1.
\<close>

theorem single_player_scarcity_raises:
  "qualified_players_at fal_league [ex_single_qb] ''QB'' = [ex_single_qb]
   \<and> position_scarcity fal_league [ex_single_qb] ''QB'' = Inl TypeError
   \<and> calculate_positional_scarcity fal_league [ex_single_qb] = Inl TypeError"
proof -
  have q: "qualified_players_at fal_league [ex_single_qb] ''QB'' = [ex_single_qb]"
    by (simp add: qualified_players_at_def fal_league_def ex_single_qb_def)
  have p: "position_scarcity fal_league [ex_single_qb] ''QB'' = Inl TypeError"
    unfolding position_scarcity_def q
    by (simp add: Let_def series_std_def series_mean_def ex_single_qb_def fal_league_def
        default_roster_def get_position_requirements_def)
  have a: "get_all_positions fal_league = all_position_codes"
    by (simp add: get_all_positions_def all_position_codes_def fal_league_def
        default_roster_def get_position_requirements_def)
  have "calculate_positional_scarcity fal_league [ex_single_qb] = Inl TypeError"
    unfolding calculate_positional_scarcity_def a all_position_codes_def
    by (simp add: p)
  then show ?thesis using q p by simp
qed


section \<open>The WAR of a player\<close>

text \<open>
  Claim C9. Every \<open>WARResult\<close> that \<open>_calculate_player_war\<close> produces has expected
  wins and replacement expected wins no larger than its games played: each is a win
  probability of at most one times a games count that validation keeps non-negative.
\<close>

theorem expected_wins_le_games_played:
  assumes "calculate_player_war player_data replacement_info tc weeks = Some r"
  shows "expected_wins r \<le> of_int (wr_games_played r)
       \<and> replacement_expected_wins r \<le> of_int (wr_games_played r)"
proof -
  define g where "g = games_played player_data"
  have ok: "g = of_int \<lfloor>g\<rfloor>" "0 \<le> g"
    using assms unfolding calculate_player_war_def Let_def g_def WARResult_fields_ok_def
    by (auto split: if_splits)
  have r: "expected_wins r =
             calculate_win_probability (total_fantasy_points_mppr player_data)
               (team_avg_score tc) (team_score_std tc) * g"
          "replacement_expected_wins r =
             calculate_win_probability (ri_avg_fantasy_points replacement_info)
               (team_avg_score tc) (team_score_std tc) * g"
          "wr_games_played r = \<lfloor>g\<rfloor>"
    using assms unfolding calculate_player_war_def Let_def g_def
    by (auto split: if_splits)
  have "p * g \<le> g" if "p \<le> 1" for p :: real
    using mult_right_mono [OF that ok(2)] by simp
  then show ?thesis
    using r ok(1) win_probability_bounds(2) by simp
qed

theorem expected_wins_le_games_played_witness:
  "calculate_player_war ex_qb
     \<lparr> ri_player_id = ''qb1'', ri_rank = 1, ri_total_starters = 16,
       ri_avg_fantasy_points = 10, ri_total_fantasy_points = 20, ri_games_played = 2,
       ri_position_avg_fantasy_points = 10, ri_avg_starter_info = None,
       ri_avg_starter_win_prob = 1 / 2 \<rparr> ex_qb_context [1, 2] \<noteq> None
   \<and> expected_wins (the (calculate_player_war ex_qb
     \<lparr> ri_player_id = ''qb1'', ri_rank = 1, ri_total_starters = 16,
       ri_avg_fantasy_points = 10, ri_total_fantasy_points = 20, ri_games_played = 2,
       ri_position_avg_fantasy_points = 10, ri_avg_starter_info = None,
       ri_avg_starter_win_prob = 1 / 2 \<rparr> ex_qb_context [1, 2])) \<le> 2"
proof -
  let ?ri = "\<lparr> ri_player_id = ''qb1'', ri_rank = 1, ri_total_starters = 16,
       ri_avg_fantasy_points = 10, ri_total_fantasy_points = 20, ri_games_played = 2,
       ri_position_avg_fantasy_points = 10, ri_avg_starter_info = None,
       ri_avg_starter_win_prob = 1 / 2 \<rparr>"
  have c: "0 \<le> calculate_win_probability 10 20 1" "calculate_win_probability 10 20 1 \<le> 1"
    by (rule win_probability_bounds)+
  have b: "calculate_win_probability 20 20 1 = 1 / 2"
    by (rule win_probability_at_mean)
  obtain r where r: "calculate_player_war ex_qb ?ri ex_qb_context [1, 2] = Some r"
    using c
    by (simp add: calculate_player_war_def Let_def ex_qb_def ex_qb_context_def
        WARResult_fields_ok_def all_position_codes_def b)
  have g: "wr_games_played r = 2"
    using r by (auto simp: calculate_player_war_def Let_def ex_qb_def split: if_splits)
  show ?thesis
    using expected_wins_le_games_played [OF r] r g by simp
qed

lemma war_zero_at_replacement_average:
  assumes "calculate_player_war player_data replacement_info tc weeks = Some r"
    and "total_fantasy_points_mppr player_data = ri_avg_fantasy_points replacement_info"
  shows "wins_above_replacement r = 0"
  using assms unfolding calculate_player_war_def Let_def
  by (auto split: if_splits)

lemma ex_qb_replacement:
  "find_replacement_level fal_league [ex_qb] ''QB'' = Inr (Some
     \<lparr> ri_player_id = ''qb1'', ri_rank = 1, ri_total_starters = 16,
       ri_avg_fantasy_points = 10, ri_total_fantasy_points = 20, ri_games_played = 2,
       ri_position_avg_fantasy_points = 10,
       ri_avg_starter_info = Some \<lparr> si_avg_fantasy_points = 10,
         si_total_fantasy_points = 20, si_games_played = 2 \<rparr>,
       ri_avg_starter_win_prob = 1 / 2 \<rparr>)"
  by (simp add: find_replacement_level_def get_position_requirements_def fal_league_def
      default_roster_def qualified_players_at_def ex_qb_def sort_desc_single df_tail_def
      series_mean_def)

text \<open>
  Claim C1, at a failing input. A quarterback with two games of ten points each is the only
  qualified player, hence the replacement-level player of his position: his total points
  and games are those of the replacement level. The engine compares the win probability
  of his season total (20) with that of the replacement's per-game average (10), so
  his wins above replacement are strictly positive instead of zero.
\<close>

theorem replacement_player_war_positive:
  "(case find_replacement_level fal_league [ex_qb] ''QB'' of
      Inr (Some info) \<Rightarrow>
        ri_player_id info = player_id ex_qb
        \<and> ri_total_fantasy_points info = total_fantasy_points_mppr ex_qb
        \<and> ri_games_played info = games_played ex_qb
        \<and> (case calculate_player_war ex_qb info ex_qb_context [1, 2] of
             Some r \<Rightarrow> 0 < wins_above_replacement r
           | None \<Rightarrow> False)
    | _ \<Rightarrow> False)"
proof -
  have a: "calculate_win_probability 10 20 1 < 1 / 2"
    by (rule win_probability_below_mean) simp_all
  have b: "calculate_win_probability 20 20 1 = 1 / 2"
    by (rule win_probability_at_mean)
  have c: "0 \<le> calculate_win_probability 10 20 1"
    by (rule win_probability_bounds)
  show ?thesis
    unfolding ex_qb_replacement
    using a c
    by (simp add: calculate_player_war_def Let_def ex_qb_def ex_qb_context_def
        WARResult_fields_ok_def all_position_codes_def b)
qed


section \<open>Auction values\<close>

lemma py_round_near: "x - 1 / 2 \<le> py_round x \<and> py_round x \<le> x + 1 / 2"
  unfolding py_round_def Let_def by (simp; linarith)

lemma py_round_ge_one:
  assumes "1 / 2 < x"
  shows "1 \<le> py_round x"
proof -
  have "0 \<le> \<lfloor>x\<rfloor>" using assms by simp
  then consider "\<lfloor>x\<rfloor> = 0" | "1 \<le> \<lfloor>x\<rfloor>" by linarith
  then show ?thesis
  proof cases
    case 1
    then show ?thesis using assms by (simp add: py_round_def Let_def)
  next
    case 2
    then have "(1::real) \<le> of_int \<lfloor>x\<rfloor>" by linarith
    then show ?thesis
      unfolding py_round_def Let_def by (auto; linarith)
  qed
qed

lemma py_round_ex: "py_round (603 / 5) = 121"
  by (simp add: py_round_def Let_def)

lemma auction_value_dollars_bounds:
  assumes "calculate_individual_auction_value total_budget war_result base mult rnk all_wars
             = Inr (Some a)"
  shows "1 \<le> auction_value_dollars a
       \<and> auction_value_dollars a \<le> of_int total_budget * (6 / 10) + 1 / 2"
proof -
  define v where "v = wins_above_replacement war_result * base * mult * calculate_rank_multiplier rnk"
  define final where "final = min (max v 1) (of_int total_budget * (6 / 10))"
  have a: "auction_value_dollars a = py_round final" "league_budget_total a = total_budget"
       "AuctionValue_fields_ok a"
    using assms unfolding calculate_individual_auction_value_def Let_def final_def v_def
    by (auto split: if_splits sum.splits)
  have "0 < total_budget" using a(2,3) by (simp add: AuctionValue_fields_ok_def)
  then have "(1::real) \<le> of_int total_budget" by linarith
  then have "1 / 2 < final" by (simp add: final_def min_def max_def)
  then have "1 \<le> py_round final" by (rule py_round_ge_one)
  moreover have "py_round final \<le> final + 1 / 2" using py_round_near [of final] by simp
  moreover have "final \<le> of_int total_budget * (6 / 10)" by (simp add: final_def)
  ultimately show ?thesis using a(1) by simp
qed

text \<open>
  Claim C4, at a failing input. With a per-team budget of 201 the cap is 120.6; the
  value of the only player is capped at 120.6 and then rounded to 121, which is stored
  as \<open>auction_value_dollars\<close> and exceeds six tenths of the budget.
\<close>

theorem auction_value_exceeds_cap:
  "(case calculate_league_auction_values fal_league 201 ex_league_war of
      Inr ([a], lw) \<Rightarrow>
        auction_value_dollars a = 121 \<and> real_of_int 201 * (6 / 10) < auction_value_dollars a
    | _ \<Rightarrow> False)"
proof -
  have s: "auction_calculate_positional_scarcity ex_league_war = [(''QB'', 1)]"
    by (simp add: auction_calculate_positional_scarcity_def ex_league_war_def
        auction_position_scarcity_def qualified_players_def ex_war_result_def)
  have b: "calculate_base_value_per_war fal_league 201 [ex_war_result] = 10452 / 5"
    by (simp add: calculate_base_value_per_war_def ex_war_result_def fal_league_def)
  have r: "get_position_rank ex_war_result [ex_war_result] = 1"
    by (simp add: get_position_rank_def sort_desc_def)
  have i: "calculate_individual_auction_value 201 ex_war_result (10452 / 5) 1 (Suc 0)
             [ex_war_result]
           = Inr (Some \<lparr> av_player_id = ''qb1'', av_season = 2024, av_position = ''QB'',
               av_player_name = None, av_wins_above_replacement = 1,
               war_rank_overall = 1, war_rank_position = 1,
               auction_value_dollars = 121, value_per_war = 10452 / 5,
               value_over_replacement = 603 / 5 - 1, positional_scarcity_multiplier = 1,
               draft_tier = 1, is_sleeper = False, is_bust_risk = True,
               league_budget_total = 201 \<rparr>)"
    unfolding calculate_individual_auction_value_def r
    by (simp add: Let_def calculate_rank_multiplier_def calculate_draft_tier_def
        is_sleeper_candidate_def is_bust_risk_candidate_def AuctionValue_fields_ok_def
        all_position_codes_def ex_war_result_def py_round_ex)
  have l: "sort_desc wins_above_replacement
             (concat (map (\<lambda>(pos, pos_result). player_wars pos_result)
                (position_results ex_league_war))) = [ex_war_result]"
    by (simp add: ex_league_war_def sort_desc_def)
  have w: "wr_position ex_war_result = ''QB''" "wins_above_replacement ex_war_result = 1"
    by (simp_all add: ex_war_result_def)
  show ?thesis
    unfolding calculate_league_auction_values_def Let_def l s b
    by (simp add: w i)
qed


section \<open>Rounding to a double\<close>

lemma pow2_powr: "pow2 k = 2 powr of_int k"
proof (cases "0 \<le> k")
  case True
  then have "(2::real) powr of_int k = 2 powr real (nat k)" by simp
  also have "\<dots> = 2 ^ nat k" by (rule powr_realpow) simp
  finally show ?thesis using True by (simp add: pow2_def)
next
  case False
  then have "(2::real) powr of_int k = 2 powr (- real (nat (- k)))" by simp
  also have "\<dots> = 1 / 2 powr real (nat (- k))" by (simp add: powr_minus_divide)
  also have "2 powr real (nat (- k)) = (2::real) ^ nat (- k)" by (rule powr_realpow) simp
  finally show ?thesis using False by (simp add: pow2_def)
qed

lemma pow2_pos [simp]: "0 < pow2 k"
  by (simp add: pow2_powr)

lemma pow2_nonneg [simp]: "0 \<le> pow2 k"
  using pow2_pos [of k] by linarith

lemma pow2_neq_0 [simp]: "pow2 k \<noteq> 0"
  using pow2_pos [of k] by linarith

lemma pow2_add: "pow2 (a + b) = pow2 a * pow2 b"
  by (simp add: pow2_powr powr_add)

lemma pow2_mono: "a \<le> b \<Longrightarrow> pow2 a \<le> pow2 b"
  by (simp add: pow2_powr)

lemma pow2_strict_mono: "a < b \<Longrightarrow> pow2 a < pow2 b"
  by (simp add: pow2_powr)

lemma pow2_double: "pow2 k + pow2 k = pow2 (k + 1)"
  by (simp add: pow2_add) (simp add: pow2_def)

lemma pow2_half: "pow2 k / 2 = pow2 (k - 1)"
  using pow2_double [of "k - 1"] by simp

lemma round_half_even_near: "\<bar>of_int (round_half_even y) - y\<bar> \<le> 1 / 2"
  unfolding round_half_even_def Let_def by (simp; linarith)

lemma round_half_even_of_int [simp]: "round_half_even (of_int n) = n"
  by (simp add: round_half_even_def)

lemma double_exponent_eq:
  assumes "pow2 e \<le> \<bar>x\<bar>" and "\<bar>x\<bar> < pow2 (e + 1)" and "- 1022 \<le> e"
  shows "double_exponent x = e"
proof -
  have pos: "0 < \<bar>x\<bar>" using assms(1) pow2_pos [of e] by linarith
  have "of_int e \<le> log 2 \<bar>x\<bar>"
    using assms(1) pos by (simp add: le_log_iff pow2_powr)
  moreover have "log 2 \<bar>x\<bar> < of_int (e + 1)"
    using assms(2) pos by (simp add: log_less_iff pow2_powr)
  ultimately have "\<lfloor>log 2 \<bar>x\<bar>\<rfloor> = e" by (simp add: floor_eq_iff)
  then show ?thesis using assms(3) by (simp add: double_exponent_def)
qed

lemma double_exponent_bounds:
  assumes "x \<noteq> 0"
  shows "\<bar>x\<bar> < pow2 (double_exponent x + 1)"
    and "- 1022 < double_exponent x \<Longrightarrow> pow2 (double_exponent x) \<le> \<bar>x\<bar>"
    and "- 1022 \<le> double_exponent x"
proof -
  have xpos: "0 < \<bar>x\<bar>" using assms by simp
  have "log 2 \<bar>x\<bar> < of_int (\<lfloor>log 2 \<bar>x\<bar>\<rfloor> + 1)" by linarith
  also have "\<dots> \<le> of_int (double_exponent x + 1)" by (simp add: double_exponent_def)
  finally have "log 2 \<bar>x\<bar> < of_int (double_exponent x + 1)" .
  then show "\<bar>x\<bar> < pow2 (double_exponent x + 1)"
    using xpos by (simp add: log_less_iff pow2_powr)
  show "- 1022 \<le> double_exponent x" by (simp add: double_exponent_def)
  assume "- 1022 < double_exponent x"
  then have "double_exponent x = \<lfloor>log 2 \<bar>x\<bar>\<rfloor>" by (simp add: double_exponent_def max_def split: if_splits)
  then have "of_int (double_exponent x) \<le> log 2 \<bar>x\<bar>" by simp
  then show "pow2 (double_exponent x) \<le> \<bar>x\<bar>"
    using xpos by (simp add: le_log_iff pow2_powr)
qed

lemma round_double_nonzero:
  assumes "x \<noteq> 0"
  shows "round_double x =
           (if pow2 1024 \<le> \<bar>of_int (round_half_even (x / pow2 (double_exponent x - 52)))
                                 * pow2 (double_exponent x - 52)\<bar>
            then (if 0 < x then PosInf else NegInf)
            else Finite (of_int (round_half_even (x / pow2 (double_exponent x - 52)))
                          * pow2 (double_exponent x - 52)))"
proof -
  have "round_double x =
          (let q = pow2 (double_exponent x - 52);
               r = of_int (round_half_even (x / q)) * q
           in if pow2 1024 \<le> \<bar>r\<bar> then (if 0 < x then PosInf else NegInf) else Finite r)"
    unfolding round_double_def using assms by (rule if_not_P)
  then show ?thesis unfolding Let_def .
qed

lemma round_double_finite_error:
  assumes "\<bar>x\<bar> \<le> M" and "pow2 (- 1022) \<le> M" and "M \<le> pow2 1023"
  shows "\<exists>r. round_double x = Finite r \<and> \<bar>r - x\<bar> \<le> M * pow2 (- 53)"
proof (cases "x = 0")
  case True
  have "0 \<le> M" using assms(1) by linarith
  then have "0 \<le> M * pow2 (- 53)" by (intro mult_nonneg_nonneg) (simp_all add: less_imp_le)
  then show ?thesis using True by (simp add: round_double_def)
next
  case False
  define e where "e = double_exponent x"
  define q :: real where "q = pow2 (e - 52)"
  define r where "r = of_int (round_half_even (x / q)) * q"
  have qpos: "0 < q" by (simp add: q_def)
  have e_hi: "pow2 e \<le> M"
  proof (cases "- 1022 < e")
    case True
    then have "pow2 e \<le> \<bar>x\<bar>"
      unfolding e_def using double_exponent_bounds(2) [OF False] by simp
    then show ?thesis using assms(1) by linarith
  next
    case False
    then have "e = - 1022"
      using double_exponent_bounds(3) [OF \<open>x \<noteq> 0\<close>] by (simp add: e_def)
    then show ?thesis using assms(2) by simp
  qed
  have half: "q / 2 = pow2 e * pow2 (- 53)"
    unfolding q_def pow2_half pow2_add [symmetric] by simp
  have "\<bar>of_int (round_half_even (x / q)) - x / q\<bar> \<le> 1 / 2"
    by (rule round_half_even_near)
  then have "\<bar>of_int (round_half_even (x / q)) - x / q\<bar> * q \<le> 1 / 2 * q"
    using qpos by (intro mult_right_mono) simp_all
  moreover have "\<bar>of_int (round_half_even (x / q)) - x / q\<bar> * q = \<bar>r - x\<bar>"
  proof -
    have "\<bar>of_int (round_half_even (x / q)) - x / q\<bar> * q
            = \<bar>(of_int (round_half_even (x / q)) - x / q) * q\<bar>"
      using qpos by (simp add: abs_mult)
    also have "(of_int (round_half_even (x / q)) - x / q) * q = r - x"
      using qpos by (simp add: r_def algebra_simps)
    finally show ?thesis .
  qed
  ultimately have err: "\<bar>r - x\<bar> \<le> q / 2" by simp
  have err2: "\<bar>r - x\<bar> \<le> M * pow2 (- 53)"
  proof -
    have a: "pow2 e * pow2 (- 53) \<le> M * pow2 (- 53)"
      using e_hi by (intro mult_right_mono) simp_all
    have "\<bar>r - x\<bar> \<le> pow2 e * pow2 (- 53)"
      using err unfolding half .
    then show ?thesis using a by linarith
  qed
  have small: "\<bar>r\<bar> < pow2 1024"
  proof -
    have "M * pow2 (- 53) \<le> pow2 1023 * pow2 (- 53)"
      using assms(3) by (intro mult_right_mono) simp_all
    also have "\<dots> = pow2 970" unfolding pow2_add [symmetric] by simp
    also have "\<dots> < pow2 1023" by (rule pow2_strict_mono) simp
    finally have "\<bar>r - x\<bar> < pow2 1023" using err2 by linarith
    moreover have "\<bar>x\<bar> \<le> pow2 1023" using assms(1,3) by linarith
    ultimately have "\<bar>r\<bar> < pow2 1023 + pow2 1023" by linarith
    also have "\<dots> = pow2 1024" unfolding pow2_double by simp
    finally show ?thesis .
  qed
  have n: "\<not> pow2 1024 \<le> \<bar>r\<bar>" using small by linarith
  have "round_double x = Finite r"
    unfolding round_double_nonzero [OF False] e_def [symmetric] q_def [symmetric] r_def [symmetric]
    using n by (simp only: if_False)
  then show ?thesis using err2 by blast
qed

lemma round_double_eval:
  assumes "x \<noteq> 0"
    and "pow2 e \<le> \<bar>x\<bar>" and "\<bar>x\<bar> < pow2 (e + 1)"
    and "- 1022 \<le> e" and "e \<le> 1022"
    and "round_half_even (x / pow2 (e - 52)) = n"
  shows "round_double x = Finite (of_int n * pow2 (e - 52))"
proof -
  have de: "double_exponent x = e"
    using assms(2,3,4) by (rule double_exponent_eq)
  have m1: "\<bar>x\<bar> \<le> pow2 (e + 1)" using assms(3) by simp
  have m2: "pow2 (- 1022) \<le> pow2 (e + 1)"
    using assms(4) by (intro pow2_mono) simp
  have m3: "pow2 (e + 1) \<le> pow2 1023"
    using assms(5) by (intro pow2_mono) simp
  obtain r where r: "round_double x = Finite r"
    using round_double_finite_error [OF m1 m2 m3] by blast
  show ?thesis
    using r unfolding round_double_nonzero [OF assms(1)] de assms(6)
    by (auto split: if_splits)
qed

lemma round_double_exact:
  assumes "\<bar>m\<bar> < 2 ^ 53" and "- 1074 \<le> k" and "k \<le> 970"
  shows "round_double (of_int m * pow2 k) = Finite (of_int m * pow2 k)"
proof (cases "m = 0")
  case True
  then show ?thesis by (simp add: round_double_def)
next
  case False
  define x :: real where "x = of_int m * pow2 k"
  have xn: "x \<noteq> 0" using False by (simp add: x_def)
  have ax: "\<bar>x\<bar> = of_int \<bar>m\<bar> * pow2 k" by (simp add: x_def abs_mult)
  have "(of_int \<bar>m\<bar> :: real) < of_int (2 ^ 53)" using assms(1) by (simp only: of_int_less_iff)
  then have "(of_int \<bar>m\<bar> :: real) < pow2 53" by (simp add: pow2_def)
  then have "of_int \<bar>m\<bar> * pow2 k < pow2 53 * pow2 k"
    by (intro mult_strict_right_mono) simp_all
  then have lt: "\<bar>x\<bar> < pow2 (k + 53)" by (simp add: ax pow2_add mult.commute)
  define e where "e = double_exponent x"
  have e_le: "e \<le> k + 52"
  proof (cases "- 1022 < e")
    case True
    then have "pow2 e \<le> \<bar>x\<bar>"
      unfolding e_def using double_exponent_bounds(2) [OF xn] by simp
    then have "pow2 e < pow2 (k + 53)" using lt by linarith
    then have "e < k + 53" by (simp add: pow2_powr)
    then show ?thesis by simp
  next
    case False
    then show ?thesis using assms(2) by simp
  qed
  define j where "j = nat (k - (e - 52))"
  have jk: "k = (e - 52) + int j" using e_le by (simp add: j_def)
  have "pow2 k = pow2 (e - 52) * pow2 (int j)" by (subst jk) (rule pow2_add)
  also have "pow2 (int j) = of_int (2 ^ j)" by (simp add: pow2_def)
  finally have pk: "pow2 k = pow2 (e - 52) * of_int (2 ^ j)" .
  have "x / pow2 (e - 52) = of_int (m * 2 ^ j)"
    unfolding x_def pk using pow2_pos [of "e - 52"] by simp
  then have rh: "round_half_even (x / pow2 (e - 52)) = m * 2 ^ j"
    by (simp only: round_half_even_of_int)
  have r: "of_int (m * 2 ^ j) * pow2 (e - 52) = x"
    unfolding x_def pk by simp
  have "pow2 (k + 53) \<le> pow2 1024" using assms(3) by (intro pow2_mono) simp
  then have n: "\<not> pow2 1024 \<le> \<bar>x\<bar>" using lt by linarith
  have "round_double x = Finite x"
    unfolding round_double_nonzero [OF xn] e_def [symmetric] rh r
    using n by (simp only: if_False)
  then show ?thesis by (simp only: x_def)
qed

lemma rd_small:
  "round_double 5 = Finite 5" "round_double (- 6) = Finite (- 6)"
  "round_double (- 1) = Finite (- 1)" "round_double 3 = Finite 3"
  "round_double (- 3) = Finite (- 3)" "round_double 2 = Finite 2"
  "round_double (- 2) = Finite (- 2)" "round_double 1 = Finite 1"
  using round_double_exact [of 5 0] round_double_exact [of "- 6" 0]
    round_double_exact [of "- 1" 0] round_double_exact [of 3 0]
    round_double_exact [of "- 3" 0] round_double_exact [of 2 0]
    round_double_exact [of "- 2" 0] round_double_exact [of 1 0]
  by (simp_all add: pow2_def)

lemma rd_three_tenths:
  "round_double (3 / 10) = Finite (5404319552844595 / 18014398509481984)"
  using round_double_eval [of "3 / 10" "- 2" 5404319552844595]
  by (simp add: pow2_def round_half_even_def Let_def)

lemma rd_dyadic:
  "round_double (5404319552844595 / 18014398509481984)
     = Finite (5404319552844595 / 18014398509481984)"
  "round_double (- (3152519739159347 / 4503599627370496))
     = Finite (- (3152519739159347 / 4503599627370496))"
  "round_double (- (3039929748475085 / 1125899906842624))
     = Finite (- (3039929748475085 / 1125899906842624))"
  "round_double (- (788129934789837 / 1125899906842624))
     = Finite (- (788129934789837 / 1125899906842624))"
  using round_double_exact [of 5404319552844595 "- 54"]
    round_double_exact [of "- 3152519739159347" "- 52"]
    round_double_exact [of "- 3039929748475085" "- 50"]
    round_double_exact [of "- 788129934789837" "- 50"]
  by (simp_all add: pow2_def)

lemma rd_rounded:
  "round_double (- (12610078956637389 / 18014398509481984))
     = Finite (- (3152519739159347 / 4503599627370496))"
  "round_double (- (48638875975601357 / 18014398509481984))
     = Finite (- (3039929748475085 / 1125899906842624))"
  using round_double_eval [of "- (12610078956637389 / 18014398509481984)" "- 1" "- 6305039478318694"]
    round_double_eval [of "- (48638875975601357 / 18014398509481984)" 1 "- 6079859496950170"]
  by (simp_all add: pow2_def round_half_even_def Let_def)


section \<open>Kicking points\<close>

lemma rd_zero [simp]: "round_double 0 = Finite 0"
  by (simp add: round_double_def)

lemma mppr_coeffs:
  "fg_missed mppr_kicking = Finite (- 6)"
  "extra_points mppr_kicking = Finite (5404319552844595 / 18014398509481984)"
  "extra_points_missed mppr_kicking = Finite (- 2)"
  "fumbles_special_teams mppr_kicking = Finite (- 6)"
  by (simp_all add: mppr_kicking_def rd_small rd_three_tenths)

lemma ex_single:
  "calculate_kicking_points mppr_kicking ex_kicker_rounding
     = Finite (- (3152519739159347 / 4503599627370496))"
  by (simp add: calculate_kicking_points_def mppr_coeffs
      stats_get_def ex_kicker_rounding_def rd_small rd_dyadic rd_rounded)

lemma ensure_columns_lookup:
  "map_of required_cols c = Some (Finite 0)
     \<Longrightarrow> pl_col (ensure_columns df) c = Inr (stats_get df c (Finite 0))"
  by (simp add: pl_col_def ensure_columns_def stats_get_def map_add_def split: option.splits)

lemma kicking_cols_required:
  "\<forall>k \<in> set kicking_columns. map_of required_cols k = Some (Finite 0)"
  by (simp add: kicking_columns_def required_cols_def)

lemma pl_col_kicking:
  "k \<in> set kicking_columns \<Longrightarrow> pl_col (ensure_columns df) k = Inr (stats_get df k (Finite 0))"
  using kicking_cols_required by (intro ensure_columns_lookup) blast

lemma pl_arith [simp]:
  "pl_times (Inr v) k = Inr (dmul v k)"
  "pl_plus (Inr x) (Inr y) = Inr (dadd x y)"
  by (simp_all add: pl_times_def pl_plus_def)

lemma pl_sum_Inr: "pl_sum (Inr a) (map Inr ts) = Inr (py_accumulate a ts)"
  by (induction ts arbitrary: a) simp_all

lemma vectorized_as_accumulate:
  "vectorized_kicking_points scoring st =
     Inr (py_accumulate (dmul (stats_get st ''fg_made_0_19'' (Finite 0)) (Finite 3))
       [dmul (stats_get st ''fg_made_20_29'' (Finite 0)) (Finite 5),
        dmul (stats_get st ''fg_made_30_39'' (Finite 0)) (Finite 5),
        dmul (stats_get st ''fg_made_40_49'' (Finite 0)) (Finite 6),
        dmul (stats_get st ''fg_made_50_59'' (Finite 0)) (Finite 7),
        dmul (stats_get st ''fg_made_60_'' (Finite 0)) (Finite 7),
        dmul (stats_get st ''fg_missed_0_19'' (Finite 0)) (fg_missed scoring),
        dmul (stats_get st ''fg_missed_20_29'' (Finite 0)) (fg_missed scoring),
        dmul (stats_get st ''fg_missed_30_39'' (Finite 0)) (fg_missed scoring),
        dmul (stats_get st ''fg_missed_40_49'' (Finite 0)) (fg_missed scoring),
        dmul (stats_get st ''fg_missed_50_59'' (Finite 0)) (fg_missed scoring),
        dmul (stats_get st ''fg_missed_60_'' (Finite 0)) (fg_missed scoring),
        dmul (stats_get st ''pat_made'' (Finite 0)) (extra_points scoring),
        dmul (stats_get st ''pat_missed'' (Finite 0)) (extra_points_missed scoring),
        dmul (stats_get st ''pat_blocked'' (Finite 0)) (extra_points_missed scoring)])"
proof -
  have c: "pl_col (ensure_columns st) k = Inr (stats_get st k (Finite 0))"
    if "k \<in> set kicking_columns" for k
    using that by (rule pl_col_kicking)
  show ?thesis
    unfolding vectorized_kicking_points_def processor_kicking_points_def
    by (simp add: c kicking_columns_def)
qed

lemma ex_vectorized:
  "vectorized_kicking_points mppr_kicking ex_kicker_rounding
     = Inr (Finite (- (3039929748475085 / 1125899906842624)))"
  unfolding vectorized_as_accumulate
  by (simp add: mppr_coeffs stats_get_def ex_kicker_rounding_def rd_small rd_dyadic rd_rounded)

lemma ex_vectorized_plus:
  "vectorized_plus_short_field_goals mppr_kicking ex_kicker_rounding
     = Inr (Finite (- (788129934789837 / 1125899906842624)))"
  unfolding vectorized_plus_short_field_goals_def ex_vectorized
  by (simp add: stats_get_def ex_kicker_rounding_def rd_small rd_dyadic)


lemma dmul_finite_error:
  assumes "\<bar>v * c\<bar> \<le> M" and "pow2 (- 1022) \<le> M" and "M \<le> pow2 1023"
  shows "\<exists>x. dmul (Finite v) (Finite c) = Finite x \<and> \<bar>x - v * c\<bar> \<le> M * pow2 (- 53)"
  using round_double_finite_error [OF assms] by simp

lemma dadd_finite_error:
  assumes "\<bar>a + b\<bar> \<le> M" and "pow2 (- 1022) \<le> M" and "M \<le> pow2 1023"
  shows "\<exists>x. dadd (Finite a) (Finite b) = Finite x \<and> \<bar>x - (a + b)\<bar> \<le> M * pow2 (- 53)"
  using round_double_finite_error [OF assms] by simp

lemma accumulate_error:
  assumes M: "pow2 (- 1022) \<le> M" "M \<le> pow2 1023"
    and d: "d = M * pow2 (- 53)" and B: "0 \<le> B"
    and terms: "list_all2 (\<lambda>t p. \<exists>x. t = Finite x \<and> \<bar>x - p\<bar> \<le> d \<and> \<bar>p\<bar> \<le> B) ts ps"
    and start: "\<bar>s0 - a0\<bar> \<le> E0"
    and room: "\<bar>a0\<bar> + E0 + real (length ps) * (B + 2 * d) \<le> M"
  shows "\<exists>s. py_accumulate (Finite s0) ts = Finite s
           \<and> \<bar>s - (a0 + sum_list ps)\<bar> \<le> E0 + real (length ps) * (2 * d)"
  using terms start room
proof (induction ts ps arbitrary: s0 a0 E0 rule: list_all2_induct)
  case Nil
  then show ?case by simp
next
  case (Cons t ts p ps)
  obtain x where x: "t = Finite x" "\<bar>x - p\<bar> \<le> d" "\<bar>p\<bar> \<le> B"
    using Cons.hyps(1) by blast
  have dn: "0 \<le> d" unfolding d using M(1) pow2_nonneg [of "- 1022"] pow2_nonneg [of "- 53"]
    by (intro mult_nonneg_nonneg) linarith+
  have n0: "0 \<le> real (length ps) * (B + 2 * d)"
    using B dn by (intro mult_nonneg_nonneg) simp_all
  have rm: "\<bar>a0\<bar> + E0 + (B + 2 * d) + real (length ps) * (B + 2 * d) \<le> M"
    using Cons.prems(2) by (simp add: algebra_simps)
  have "\<bar>s0 + x\<bar> \<le> \<bar>a0\<bar> + E0 + B + d"
    using Cons.prems(1) x(2,3) by linarith
  then have "\<bar>s0 + x\<bar> \<le> M" using rm n0 dn by linarith
  then obtain s1 where s1: "dadd (Finite s0) (Finite x) = Finite s1"
      "\<bar>s1 - (s0 + x)\<bar> \<le> M * pow2 (- 53)"
    using dadd_finite_error [OF _ M] by blast
  have e1: "\<bar>s1 - (a0 + p)\<bar> \<le> E0 + 2 * d"
    using s1(2) Cons.prems(1) x(2) unfolding d [symmetric] by linarith
  have r1: "\<bar>a0 + p\<bar> + (E0 + 2 * d) + real (length ps) * (B + 2 * d) \<le> M"
    using rm x(3) by linarith
  obtain s where s: "py_accumulate (Finite s1) ts = Finite s"
      "\<bar>s - (a0 + p + sum_list ps)\<bar> \<le> E0 + 2 * d + real (length ps) * (2 * d)"
    using Cons.IH [OF e1 r1] by blast
  have s1': "round_double (s0 + x) = Finite s1" using s1(1) by simp
  have "py_accumulate (Finite s0) (t # ts) = Finite s"
    by (simp add: x(1) s1' s(1))
  moreover have "\<bar>s - (a0 + sum_list (p # ps))\<bar> \<le> E0 + real (length (p # ps)) * (2 * d)"
    using s(2) by (simp add: algebra_simps)
  ultimately show ?case by blast
qed

lemma sum_list_abs_le:
  assumes "\<forall>p \<in> set ps. \<bar>p\<bar> \<le> B"
  shows "\<bar>sum_list ps\<bar> \<le> real (length ps) * B"
  using assms
proof (induction ps)
  case Nil
  then show ?case by simp
next
  case (Cons a ps)
  then have "\<bar>a\<bar> \<le> B" "\<bar>sum_list ps\<bar> \<le> real (length ps) * B" by simp_all
  then show ?case by (simp add: algebra_simps)
qed

lemma py_accumulate_append:
  "py_accumulate acc (xs @ ys) = py_accumulate (py_accumulate acc xs) ys"
  by (induction xs arbitrary: acc) simp_all

lemma single_as_shared:
  "calculate_kicking_points scoring st =
     dadd (py_accumulate
             (dadd (Finite 0) (dmul (stats_get st ''fg_made_0_19'' (Finite 0)) (Finite 5)))
             (map (\<lambda>(k, c). dmul (stats_get st k (Finite 0)) c) (shared_kicking_terms scoring)))
       (dmul (stats_get st ''fumbles_special_teams'' (Finite 0)) (fumbles_special_teams scoring))"
  by (simp add: calculate_kicking_points_def shared_kicking_terms_def)

lemma vectorized_as_shared:
  "vectorized_kicking_points scoring st =
     Inr (py_accumulate (dmul (stats_get st ''fg_made_0_19'' (Finite 0)) (Finite 3))
            (map (\<lambda>(k, c). dmul (stats_get st k (Finite 0)) c) (shared_kicking_terms scoring)))"
  unfolding vectorized_as_accumulate by (simp add: shared_kicking_terms_def)

lemma finite_withinD:
  "finite_within x b \<Longrightarrow> x = Finite (dval x) \<and> \<bar>dval x\<bar> \<le> b"
  by (cases x) (simp_all add: finite_within_def dval_def)

lemma kicking_paths_exact_without_short_field_goals:
  assumes "stats_get st ''fumbles_special_teams'' (Finite 0) = Finite 0"
    and "is_finite (fumbles_special_teams scoring)"
    and "stats_get st ''fg_made_0_19'' (Finite 0) = Finite 0"
  shows "vectorized_plus_short_field_goals scoring st
           = Inr (calculate_kicking_points scoring st)"
proof -
  obtain cf where cf: "fumbles_special_teams scoring = Finite cf"
    using assms(2) by (cases "fumbles_special_teams scoring") (simp_all add: is_finite_def)
  show ?thesis
    unfolding vectorized_plus_short_field_goals_def vectorized_as_shared single_as_shared
    by (simp add: assms(1,3) cf)
qed

lemma kicking_paths_rounding_bound:
  assumes fum: "stats_get st ''fumbles_special_teams'' (Finite 0) = Finite 0"
    and fumc: "is_finite (fumbles_special_teams scoring)"
    and vals: "\<forall>k \<in> set kicking_columns. finite_within (stats_get st k (Finite 0)) V"
    and c1: "finite_within (fg_missed scoring) C"
    and c2: "finite_within (extra_points scoring) C"
    and c3: "finite_within (extra_points_missed scoring) C"
    and C: "7 \<le> C" and lo: "pow2 (- 1000) \<le> V * C" and hi: "V * C \<le> pow2 1000"
  shows "\<exists>s r. calculate_kicking_points scoring st = Finite s
           \<and> vectorized_plus_short_field_goals scoring st = Inr (Finite r)
           \<and> \<bar>s - r\<bar> \<le> V * C * pow2 (- 42)"
proof -
  define B where "B = V * C"
  define M where "M = 32 * B"
  define d where "d = M * pow2 (- 53)"
  define f where "f = (\<lambda>(k, c). dmul (stats_get st k (Finite 0)) c)"
  define g where "g = (\<lambda>(k, c :: double). dval (stats_get st k (Finite 0)) * dval c)"
  define ks where "ks = shared_kicking_terms scoring"
  define a where "a = dval (stats_get st ''fg_made_0_19'' (Finite 0))"
  have Bpos: "0 < B" using lo pow2_pos [of "- 1000"] unfolding B_def by linarith
  have p32: "(32::real) = pow2 5" by (simp add: pow2_def)
  have M1: "pow2 (- 1022) \<le> M"
  proof -
    have "pow2 (- 1022) \<le> pow2 (- 1000)" by (rule pow2_mono) simp
    also have "\<dots> \<le> B" using lo by (simp add: B_def)
    also have "\<dots> \<le> M" using Bpos by (simp add: M_def)
    finally show ?thesis .
  qed
  have M2: "M \<le> pow2 1023"
  proof -
    have "M \<le> pow2 5 * pow2 1000" using hi by (simp add: M_def B_def p32 [symmetric])
    also have "\<dots> = pow2 1005" unfolding pow2_add [symmetric] by simp
    also have "\<dots> \<le> pow2 1023" by (rule pow2_mono) simp
    finally show ?thesis .
  qed
  have dB: "d = B * pow2 (- 48)"
  proof -
    have "32 * pow2 (- 53) = pow2 (- 48)" by (simp add: pow2_def)
    then show ?thesis by (simp add: d_def M_def mult.assoc mult.left_commute)
  qed
  have dpos: "0 \<le> d" unfolding dB using Bpos by (intro mult_nonneg_nonneg) simp_all
  have dsmall: "64 * d \<le> B"
  proof -
    have "64 * pow2 (- 48) = pow2 (- 42)" by (simp add: pow2_def)
    moreover have "pow2 (- 42) \<le> pow2 0" by (rule pow2_mono) simp
    ultimately have "64 * pow2 (- 48) \<le> 1" by (simp add: pow2_def)
    then have "B * (64 * pow2 (- 48)) \<le> B * 1" using Bpos by (intro mult_left_mono) simp_all
    then show ?thesis by (simp add: dB mult.assoc mult.left_commute)
  qed
  have d64: "64 * d = V * C * pow2 (- 42)"
  proof -
    have "64 * pow2 (- 48) = pow2 (- 42)" by (simp add: pow2_def)
    then show ?thesis by (simp add: dB B_def mult.assoc mult.left_commute)
  qed
  have Vn: "0 \<le> V"
  proof -
    have "finite_within (stats_get st ''fg_made_0_19'' (Finite 0)) V"
      using vals by (simp add: kicking_columns_def)
    then show ?thesis using finite_withinD by fastforce
  qed
  have prod_le: "\<bar>dval x * dval c\<bar> \<le> B"
    if "finite_within x V" "finite_within c C" for x c
  proof -
    have "\<bar>dval x\<bar> \<le> V" "\<bar>dval c\<bar> \<le> C"
      using that finite_withinD by blast+
    then have "\<bar>dval x\<bar> * \<bar>dval c\<bar> \<le> V * C"
      by (intro mult_mono) (use Vn in simp_all)
    then show ?thesis by (simp add: abs_mult B_def)
  qed
  have tm_ok: "\<exists>x. dmul sv c = Finite x \<and> \<bar>x - dval sv * dval c\<bar> \<le> d \<and> \<bar>dval sv * dval c\<bar> \<le> B"
    if "finite_within sv V" "finite_within c C" for sv c
  proof -
    have e: "sv = Finite (dval sv)" "c = Finite (dval c)"
      using that finite_withinD by blast+
    have b: "\<bar>dval sv * dval c\<bar> \<le> B" using that by (rule prod_le)
    then have "\<bar>dval sv * dval c\<bar> \<le> M" using Bpos by (simp add: M_def)
    then obtain x where "dmul (Finite (dval sv)) (Finite (dval c)) = Finite x"
        "\<bar>x - dval sv * dval c\<bar> \<le> M * pow2 (- 53)"
      using dmul_finite_error [OF _ M1 M2] by blast
    then show ?thesis using b e by (metis d_def)
  qed
  have cst: "finite_within (Finite 5) C" "finite_within (Finite 6) C"
      "finite_within (Finite 7) C" "finite_within (Finite 3) C" "finite_within (Finite 2) C"
    using C by (simp_all add: finite_within_def)
  have ks_ok: "\<forall>(k, c) \<in> set ks. finite_within (stats_get st k (Finite 0)) V \<and> finite_within c C"
    using vals c1 c2 c3 cst by (simp add: ks_def shared_kicking_terms_def kicking_columns_def)
  have shared: "list_all2 (\<lambda>t p. \<exists>x. t = Finite x \<and> \<bar>x - p\<bar> \<le> d \<and> \<bar>p\<bar> \<le> B) (map f ks) (map g ks)"
    unfolding list_all2_map1 list_all2_map2
  proof (rule list_all2_same [THEN iffD2], rule ballI)
    fix kc assume "kc \<in> set ks"
    then obtain k c where kc: "kc = (k, c)" "finite_within (stats_get st k (Finite 0)) V"
        "finite_within c C"
      using ks_ok by (cases kc) auto
    show "\<exists>x. f kc = Finite x \<and> \<bar>x - g kc\<bar> \<le> d \<and> \<bar>g kc\<bar> \<le> B"
      using tm_ok [OF kc(2,3)] by (simp add: kc(1) f_def g_def)
  qed
  have len: "length ks = 14" by (simp add: ks_def shared_kicking_terms_def)
  have gsum: "\<bar>sum_list (map g ks)\<bar> \<le> 14 * B"
  proof -
    have "\<forall>p \<in> set (map g ks). \<bar>p\<bar> \<le> B"
    proof
      fix p assume "p \<in> set (map g ks)"
      then obtain kc where kc: "kc \<in> set ks" "p = g kc" by auto
      obtain k c where kc2: "kc = (k, c)" by (cases kc)
      have "finite_within (stats_get st k (Finite 0)) V" "finite_within c C"
        using ks_ok kc(1) unfolding kc2 by auto
      then have "\<bar>dval (stats_get st k (Finite 0)) * dval c\<bar> \<le> B" by (rule prod_le)
      then show "\<bar>p\<bar> \<le> B" by (simp add: kc(2) kc2 g_def)
    qed
    then have "\<bar>sum_list (map g ks)\<bar> \<le> real (length (map g ks)) * B"
      by (rule sum_list_abs_le)
    then show ?thesis by (simp add: len)
  qed
  have lenr: "real (length (map g ks)) = 14" by (simp add: len)
  have av: "finite_within (stats_get st ''fg_made_0_19'' (Finite 0)) V"
    using vals by (simp add: kicking_columns_def)
  have aeq: "stats_get st ''fg_made_0_19'' (Finite 0) = Finite a"
    using finite_withinD [OF av] by (simp add: a_def)
  obtain x5 where x5: "dmul (Finite a) (Finite 5) = Finite x5" "\<bar>x5 - a * 5\<bar> \<le> d"
      "\<bar>a * 5\<bar> \<le> B"
    using tm_ok [OF av cst(1)] by (auto simp: aeq dval_def)
  obtain x3 where x3: "dmul (Finite a) (Finite 3) = Finite x3" "\<bar>x3 - a * 3\<bar> \<le> d"
      "\<bar>a * 3\<bar> \<le> B"
    using tm_ok [OF av cst(4)] by (auto simp: aeq dval_def)
  obtain x2 where x2: "dmul (Finite 2) (Finite a) = Finite x2" "\<bar>x2 - a * 2\<bar> \<le> d"
      "\<bar>a * 2\<bar> \<le> B"
    using tm_ok [OF av cst(5)] by (auto simp: aeq dval_def mult.commute)
  have "\<bar>0 + x5\<bar> \<le> M" using x5(2,3) dsmall dpos Bpos unfolding M_def by argo
  then obtain s1 where s1: "dadd (Finite 0) (Finite x5) = Finite s1"
      "\<bar>s1 - (0 + x5)\<bar> \<le> M * pow2 (- 53)"
    using dadd_finite_error [OF _ M1 M2] by blast
  have s1e: "\<bar>s1 - a * 5\<bar> \<le> 2 * d" using s1(2) x5(2) unfolding d_def [symmetric] by argo
  have room1: "\<bar>a * 5\<bar> + 2 * d + real (length (map g ks)) * (B + 2 * d) \<le> M"
    unfolding lenr M_def using x5(3) dsmall dpos Bpos by argo
  obtain s2 where s2: "py_accumulate (Finite s1) (map f ks) = Finite s2"
      "\<bar>s2 - (a * 5 + sum_list (map g ks))\<bar> \<le> 2 * d + real (length (map g ks)) * (2 * d)"
    using accumulate_error [OF M1 M2 d_def _ shared s1e room1] Bpos by auto
  have s2e: "\<bar>s2 - (a * 5 + sum_list (map g ks))\<bar> \<le> 30 * d"
    using s2(2) unfolding lenr by argo
  obtain cf where cf: "fumbles_special_teams scoring = Finite cf"
    using fumc by (cases "fumbles_special_teams scoring") (simp_all add: is_finite_def)
  have "\<bar>s2 + 0\<bar> \<le> M" using s2e gsum x5(3) dsmall dpos Bpos unfolding M_def by argo
  then obtain s where s: "dadd (Finite s2) (Finite 0) = Finite s"
      "\<bar>s - (s2 + 0)\<bar> \<le> M * pow2 (- 53)"
    using dadd_finite_error [OF _ M1 M2] by blast
  have fz: "dmul (Finite 0) (Finite cf) = Finite 0" by simp
  have single: "calculate_kicking_points scoring st = Finite s"
    unfolding single_as_shared f_def [symmetric] ks_def [symmetric]
    by (simp only: aeq x5(1) s1(1) s2(1) fum cf fz s(1))
  have se: "\<bar>s - (a * 5 + sum_list (map g ks))\<bar> \<le> 31 * d"
    using s(2) s2e unfolding d_def [symmetric] by argo
  have room3: "\<bar>a * 3\<bar> + d + real (length (map g ks)) * (B + 2 * d) \<le> M"
    unfolding lenr M_def using x3(3) dsmall dpos Bpos by argo
  obtain r0 where r0: "py_accumulate (Finite x3) (map f ks) = Finite r0"
      "\<bar>r0 - (a * 3 + sum_list (map g ks))\<bar> \<le> d + real (length (map g ks)) * (2 * d)"
    using accumulate_error [OF M1 M2 d_def _ shared x3(2) room3] Bpos by auto
  have r0e: "\<bar>r0 - (a * 3 + sum_list (map g ks))\<bar> \<le> 29 * d"
    using r0(2) unfolding lenr by argo
  have "\<bar>r0 + x2\<bar> \<le> M"
    using r0e gsum x3(3) x2(2,3) dsmall dpos Bpos unfolding M_def by argo
  then obtain r where r: "dadd (Finite r0) (Finite x2) = Finite r"
      "\<bar>r - (r0 + x2)\<bar> \<le> M * pow2 (- 53)"
    using dadd_finite_error [OF _ M1 M2] by blast
  have vec: "vectorized_plus_short_field_goals scoring st = Inr (Finite r)"
    unfolding vectorized_plus_short_field_goals_def vectorized_as_shared
      f_def [symmetric] ks_def [symmetric]
    by (simp only: aeq x3(1) r0(1) x2(1) r(1) sum.case)
  have re: "\<bar>r - (a * 5 + sum_list (map g ks))\<bar> \<le> 31 * d"
    using r(2) r0e x2(2) unfolding d_def [symmetric] by argo
  have "\<bar>s - r\<bar> \<le> 64 * d" using se re dpos by argo
  then have "\<bar>s - r\<bar> \<le> V * C * pow2 (- 42)" by (simp only: d64)
  then show ?thesis using single vec by blast
qed

text \<open>
  Claim C5, as stated: for every statistics mapping whose \<open>fumbles_special_teams\<close> entry
  is 0, the single-player \<open>calculate_kicking_points\<close> returns exactly the vectorized
  kicking formula's result plus \<open>2.0 * fg_made_0_19\<close>. In doubles this fails for one made
  field goal of 0 to 19 yards, one miss and one extra point: the single-player path
  returns the double nearest to \<open>- 0.7\<close>, the vectorized path the double nearest to
  \<open>- 2.7\<close>, and adding \<open>2.0\<close> to that gives the next double below the one nearest to
  \<open>- 0.7\<close>.
\<close>

theorem kicking_paths_exact_counterexample:
  "stats_get ex_kicker_rounding ''fumbles_special_teams'' (Finite 0) = Finite 0
   \<and> calculate_kicking_points mppr_kicking ex_kicker_rounding
       = Finite (- (3152519739159347 / 4503599627370496))
   \<and> vectorized_plus_short_field_goals mppr_kicking ex_kicker_rounding
       = Inr (Finite (- (788129934789837 / 1125899906842624)))
   \<and> vectorized_plus_short_field_goals mppr_kicking ex_kicker_rounding
       \<noteq> Inr (calculate_kicking_points mppr_kicking ex_kicker_rounding)"
  unfolding ex_single ex_vectorized_plus
  by (simp add: stats_get_def ex_kicker_rounding_def)

text \<open>
  Claim C5, as amended: for every statistics mapping whose \<open>fumbles_special_teams\<close> entry
  is 0 (or absent) and whose kicking statistics are finite, of magnitude at most \<open>V\<close>,
  and every scoring table with finite coefficients of magnitude at most \<open>C\<close>, both
  paths return finite doubles, and the single-player result differs from the
  vectorized result plus \<open>2.0 * fg_made_0_19\<close> by at most \<open>V * C\<close> times \<open>2\<close> to the power
  \<open>- 42\<close> (the rounding of the two sums); the two are exactly equal when \<open>fg_made_0_19\<close>
  is 0. The two paths score a made field goal of 0 to 19 yards at 5 and at 3, and
  agree on every other coefficient.
\<close>

theorem kicking_paths_agree_up_to_rounding:
  assumes fum: "stats_get st ''fumbles_special_teams'' (Finite 0) = Finite 0"
    and fumc: "is_finite (fumbles_special_teams scoring)"
    and vals: "\<forall>k \<in> set kicking_columns. finite_within (stats_get st k (Finite 0)) V"
    and c1: "finite_within (fg_missed scoring) C"
    and c2: "finite_within (extra_points scoring) C"
    and c3: "finite_within (extra_points_missed scoring) C"
    and V: "1 \<le> V" and C: "7 \<le> C" and hi: "V * C \<le> pow2 1000"
  shows "\<exists>s r. calculate_kicking_points scoring st = Finite s
           \<and> vectorized_plus_short_field_goals scoring st = Inr (Finite r)
           \<and> \<bar>s - r\<bar> \<le> V * C * pow2 (- 42)
           \<and> (stats_get st ''fg_made_0_19'' (Finite 0) = Finite 0 \<longrightarrow> s = r)"
proof -
  have lo: "pow2 (- 1000) \<le> V * C"
  proof -
    have "pow2 (- 1000) \<le> pow2 0" by (rule pow2_mono) simp
    also have "\<dots> = 1 * 1" by (simp add: pow2_def)
    also have "\<dots> \<le> V * C" using V C by (intro mult_mono) simp_all
    finally show ?thesis .
  qed
  obtain s r where sr: "calculate_kicking_points scoring st = Finite s"
      "vectorized_plus_short_field_goals scoring st = Inr (Finite r)"
      "\<bar>s - r\<bar> \<le> V * C * pow2 (- 42)"
    using kicking_paths_rounding_bound [OF fum fumc vals c1 c2 c3 C lo hi] by blast
  have "s = r" if z: "stats_get st ''fg_made_0_19'' (Finite 0) = Finite 0"
    using kicking_paths_exact_without_short_field_goals [OF fum fumc z] sr(1,2) by simp
  then show ?thesis using sr by blast
qed

theorem kicking_paths_agree_up_to_rounding_witness:
  "(\<exists>s r. calculate_kicking_points mppr_kicking ex_kicker_rounding = Finite s
       \<and> vectorized_plus_short_field_goals mppr_kicking ex_kicker_rounding = Inr (Finite r)
       \<and> s \<noteq> r \<and> \<bar>s - r\<bar> \<le> 1 * 7 * pow2 (- 42))
   \<and> stats_get ex_kicker_plain ''fg_made_0_19'' (Finite 0) = Finite 0
   \<and> (\<exists>s. calculate_kicking_points mppr_kicking ex_kicker_plain = Finite s
       \<and> vectorized_plus_short_field_goals mppr_kicking ex_kicker_plain = Inr (Finite s))"
proof -
  have fc: "is_finite (fumbles_special_teams mppr_kicking)"
      "finite_within (fg_missed mppr_kicking) 7"
      "finite_within (extra_points mppr_kicking) 7"
      "finite_within (extra_points_missed mppr_kicking) 7"
    by (simp_all add: mppr_coeffs is_finite_def finite_within_def)
  have p: "(1::real) * 7 \<le> pow2 1000" "(3::real) * 7 \<le> pow2 1000"
  proof -
    have "pow2 5 \<le> pow2 1000" by (rule pow2_mono) simp
    moreover have "pow2 5 = 32" by (simp add: pow2_def)
    ultimately show "(1::real) * 7 \<le> pow2 1000" "(3::real) * 7 \<le> pow2 1000" by simp_all
  qed
  have f1: "stats_get ex_kicker_rounding ''fumbles_special_teams'' (Finite 0) = Finite 0"
    by (simp add: stats_get_def ex_kicker_rounding_def)
  have v1: "\<forall>k \<in> set kicking_columns. finite_within (stats_get ex_kicker_rounding k (Finite 0)) 1"
    by (simp add: kicking_columns_def stats_get_def ex_kicker_rounding_def finite_within_def)
  obtain s r where sr: "calculate_kicking_points mppr_kicking ex_kicker_rounding = Finite s"
      "vectorized_plus_short_field_goals mppr_kicking ex_kicker_rounding = Inr (Finite r)"
      "\<bar>s - r\<bar> \<le> 1 * 7 * pow2 (- 42)"
    using kicking_paths_agree_up_to_rounding [OF f1 fc(1) v1 fc(2,3,4) _ _ p(1)] by auto
  have "s \<noteq> r" using sr(1,2) unfolding ex_single ex_vectorized_plus by simp
  then have a: "\<exists>s r. calculate_kicking_points mppr_kicking ex_kicker_rounding = Finite s
       \<and> vectorized_plus_short_field_goals mppr_kicking ex_kicker_rounding = Inr (Finite r)
       \<and> s \<noteq> r \<and> \<bar>s - r\<bar> \<le> 1 * 7 * pow2 (- 42)"
    using sr by blast
  have f2: "stats_get ex_kicker_plain ''fumbles_special_teams'' (Finite 0) = Finite 0"
    by (simp add: stats_get_def ex_kicker_plain_def)
  have z2: "stats_get ex_kicker_plain ''fg_made_0_19'' (Finite 0) = Finite 0"
    by (simp add: stats_get_def ex_kicker_plain_def)
  have v2: "\<forall>k \<in> set kicking_columns. finite_within (stats_get ex_kicker_plain k (Finite 0)) 3"
    by (simp add: kicking_columns_def stats_get_def ex_kicker_plain_def finite_within_def)
  obtain s' r' where sr': "calculate_kicking_points mppr_kicking ex_kicker_plain = Finite s'"
      "vectorized_plus_short_field_goals mppr_kicking ex_kicker_plain = Inr (Finite r')"
      "stats_get ex_kicker_plain ''fg_made_0_19'' (Finite 0) = Finite 0 \<longrightarrow> s' = r'"
    using kicking_paths_agree_up_to_rounding [OF f2 fc(1) v2 fc(2,3,4) _ _ p(2)] by auto
  have b: "\<exists>s. calculate_kicking_points mppr_kicking ex_kicker_plain = Finite s
       \<and> vectorized_plus_short_field_goals mppr_kicking ex_kicker_plain = Inr (Finite s)"
    using sr' z2 by simp
  show ?thesis using a z2 b by blast
qed


section \<open>Week ranges\<close>

lemma str_nat_weeks:
  "str_nat 1 = ''1''" "str_nat 2 = ''2''" "str_nat 3 = ''3''" "str_nat 4 = ''4''"
  "str_nat 5 = ''5''" "str_nat 6 = ''6''" "str_nat 7 = ''7''" "str_nat 8 = ''8''"
  "str_nat 9 = ''9''" "str_nat 10 = ''10''" "str_nat 11 = ''11''" "str_nat 12 = ''12''"
  "str_nat 13 = ''13''" "str_nat 14 = ''14''" "str_nat 15 = ''15''" "str_nat 16 = ''16''"
  "str_nat 17 = ''17''" "str_nat 18 = ''18''" "str_nat (Suc 0) = ''1''"
  by (simp_all add: str_nat.simps [of "Suc 0"] str_nat.simps [of 2] str_nat.simps [of 3]
      str_nat.simps [of 4] str_nat.simps [of 5] str_nat.simps [of 6] str_nat.simps [of 7]
      str_nat.simps [of 8] str_nat.simps [of 9] str_nat.simps [of 10] str_nat.simps [of 11]
      str_nat.simps [of 12] str_nat.simps [of 13] str_nat.simps [of 14] str_nat.simps [of 15]
      str_nat.simps [of 16] str_nat.simps [of 17] str_nat.simps [of 18])

lemma week_cases:
  assumes "1 \<le> a" and "a \<le> 18"
  shows "a = 1 \<or> a = 2 \<or> a = 3 \<or> a = 4 \<or> a = 5 \<or> a = 6 \<or> a = 7 \<or> a = 8 \<or> a = 9
       \<or> a = 10 \<or> a = 11 \<or> a = 12 \<or> a = 13 \<or> a = 14 \<or> a = 15 \<or> a = 16 \<or> a = 17
       \<or> a = (18::int)"
  using assms by presburger

lemma validate_week_digits:
  "validate_week (WeekStr ''1'') = Inr 1" "validate_week (WeekStr ''2'') = Inr 2"
  "validate_week (WeekStr ''3'') = Inr 3" "validate_week (WeekStr ''4'') = Inr 4"
  "validate_week (WeekStr ''5'') = Inr 5" "validate_week (WeekStr ''6'') = Inr 6"
  "validate_week (WeekStr ''7'') = Inr 7" "validate_week (WeekStr ''8'') = Inr 8"
  "validate_week (WeekStr ''9'') = Inr 9" "validate_week (WeekStr ''10'') = Inr 10"
  "validate_week (WeekStr ''11'') = Inr 11" "validate_week (WeekStr ''12'') = Inr 12"
  "validate_week (WeekStr ''13'') = Inr 13" "validate_week (WeekStr ''14'') = Inr 14"
  "validate_week (WeekStr ''15'') = Inr 15" "validate_week (WeekStr ''16'') = Inr 16"
  "validate_week (WeekStr ''17'') = Inr 17" "validate_week (WeekStr ''18'') = Inr 18"
  by (simp_all add: validate_week_def py_int_of_str_def int_strip_def is_int_space_def
      digit_val_def)

lemma week_string:
  assumes "1 \<le> a" and "a \<le> 18"
  shows "CHR ''-'' \<notin> set (str_int a) \<and> CHR '','' \<notin> set (str_int a)
         \<and> validate_week (WeekStr (str_int a)) = Inr a"
  using week_cases [OF assms]
  by (auto simp: str_int_def str_nat_weeks validate_week_digits)

lemma py_split_first_dash:
  assumes "CHR ''-'' \<notin> set s1"
  shows "py_split_first CHR ''-'' (s1 @ ''-'' @ s2) = (s1, s2)"
proof -
  have "takeWhile (\<lambda>c. c \<noteq> CHR ''-'') (s1 @ ''-'' @ s2) = s1"
    using assms by (induction s1) auto
  moreover have "dropWhile (\<lambda>c. c \<noteq> CHR ''-'') (s1 @ ''-'' @ s2) = ''-'' @ s2"
    using assms by (induction s1) auto
  ultimately show ?thesis by (simp add: py_split_first_def)
qed

lemma week_range_try_weeks:
  assumes "1 \<le> a" "a \<le> 18" "1 \<le> b" "b \<le> 18"
  shows "week_range_try (str_int a @ ''-'' @ str_int b) =
           (if a > b
            then Inl (ValueError (''Invalid week range: '' @ (str_int a @ ''-'' @ str_int b)
                                   @ ''. Start week must be <= end week.''))
            else Inr [a..b])"
proof -
  have d: "CHR ''-'' \<notin> set (str_int a)" using week_string [OF assms(1,2)] by simp
  show ?thesis
    unfolding week_range_try_def py_split_first_dash [OF d]
    using week_string [OF assms(1,2)] week_string [OF assms(3,4)]
    by simp
qed

lemma range_message_kept:
  "week_range_except s (ValueError (''Invalid week range: '' @ rest))
     = ValueError (''Invalid week range: '' @ rest)"
  by (simp add: week_range_except_def)

lemma validate_weeks_list_weeks:
  assumes "1 \<le> a" "a \<le> 18" "1 \<le> b" "b \<le> 18"
  shows "validate_weeks_list (WeeksStr (str_int a @ ''-'' @ str_int b)) =
           (if a > b
            then Inl (ValueError (''Invalid week range: '' @ (str_int a @ ''-'' @ str_int b)
                                   @ ''. Start week must be <= end week.''))
            else Inr [a..b])"
proof -
  have c: "CHR ''-'' \<in> set (str_int a @ ''-'' @ str_int b)
           \<and> CHR '','' \<notin> set (str_int a @ ''-'' @ str_int b)"
    using week_string [OF assms(1,2)] week_string [OF assms(3,4)] by simp
  show ?thesis
    unfolding validate_weeks_list_def weeks_arg.case
    using c
    by (simp only: if_True week_range_try_weeks [OF assms] range_message_kept
        sum.case split: if_splits) simp
qed

text \<open>
  Claim C10. \<open>validate_weeks_list\<close> applied to the string \<open>1-5\<close> returns the weeks
  1, 2, 3, 4, 5; applied to \<open>5-1\<close> it raises the \<open>ValueError\<close> that names the invalid
  range. For every range string \<open>a-b\<close> of valid weeks it returns the weeks from \<open>a\<close>
  to \<open>b\<close> when \<open>a \<le> b\<close>, and raises that error when \<open>a > b\<close>.
\<close>

theorem validate_weeks_list_range:
  "validate_weeks_list (WeeksStr ''1-5'') = Inr [1, 2, 3, 4, 5]
   \<and> validate_weeks_list (WeeksStr ''5-1'')
       = Inl (ValueError ''Invalid week range: 5-1. Start week must be <= end week.'')
   \<and> (\<forall>a b. 1 \<le> a \<and> a \<le> b \<and> b \<le> 18 \<longrightarrow>
         validate_weeks_list (WeeksStr (str_int a @ ''-'' @ str_int b)) = Inr [a..b])
   \<and> (\<forall>a b. 1 \<le> b \<and> b < a \<and> a \<le> 18 \<longrightarrow>
         validate_weeks_list (WeeksStr (str_int a @ ''-'' @ str_int b))
           = Inl (ValueError (''Invalid week range: '' @ str_int a @ ''-'' @ str_int b
                               @ ''. Start week must be <= end week.'')))"
proof (intro conjI allI impI)
  have s: "str_int 1 = ''1''" "str_int 5 = ''5''"
    by (simp_all add: str_int_def str_nat_weeks)
  have u: "[1..5] = [1, 2, 3, 4, 5::int]"
    by (simp add: upto.simps)
  show "validate_weeks_list (WeeksStr ''1-5'') = Inr [1, 2, 3, 4, 5]"
    using validate_weeks_list_weeks [of 1 5] by (simp add: s u)
  show "validate_weeks_list (WeeksStr ''5-1'')
       = Inl (ValueError ''Invalid week range: 5-1. Start week must be <= end week.'')"
    using validate_weeks_list_weeks [of 5 1] by (simp add: s)
next
  fix a b :: int
  assume "1 \<le> a \<and> a \<le> b \<and> b \<le> 18"
  then show "validate_weeks_list (WeeksStr (str_int a @ ''-'' @ str_int b)) = Inr [a..b]"
    using validate_weeks_list_weeks [of a b] by simp
next
  fix a b :: int
  assume "1 \<le> b \<and> b < a \<and> a \<le> 18"
  then show "validate_weeks_list (WeeksStr (str_int a @ ''-'' @ str_int b))
           = Inl (ValueError (''Invalid week range: '' @ str_int a @ ''-'' @ str_int b
                               @ ''. Start week must be <= end week.''))"
    using validate_weeks_list_weeks [of a b] by simp
qed

theorem validate_weeks_list_range_witness:
  "validate_weeks_list (WeeksStr ''3-7'') = Inr [3, 4, 5, 6, 7]
   \<and> validate_weeks_list (WeeksStr ''12-9'')
       = Inl (ValueError ''Invalid week range: 12-9. Start week must be <= end week.'')"
proof -
  have s: "str_int 3 = ''3''" "str_int 7 = ''7''" "str_int 12 = ''12''" "str_int 9 = ''9''"
    by (simp_all add: str_int_def str_nat_weeks)
  have u: "[3..7] = [3, 4, 5, 6, 7::int]"
    by (simp add: upto.simps)
  have "validate_weeks_list (WeeksStr (str_int 3 @ ''-'' @ str_int 7)) = Inr [3..7]"
    using validate_weeks_list_range by simp
  moreover have "validate_weeks_list (WeeksStr (str_int 12 @ ''-'' @ str_int 9))
      = Inl (ValueError (''Invalid week range: '' @ str_int 12 @ ''-'' @ str_int 9
                               @ ''. Start week must be <= end week.''))"
    using validate_weeks_list_range by simp
  ultimately show ?thesis by (simp add: s u)
qed

end
